theory Spec2Isabelle
  imports Main
begin

section \<open>Strings\<close>

text \<open>
  A JavaScript string is a sequence of UTF-16 code units. A code unit is an integer from
  0 to 65535 and a code point an integer from 0 to 1114111; the model reads any integer
  as either, and no definition depends on the bounds. \<open>utf16\<close> gives the code units of
  a literal written in ASCII.
\<close>

type_synonym code_unit = int

type_synonym code_point = int

type_synonym js_string = "code_unit list"

definition utf16 :: "string \<Rightarrow> js_string" where
  "utf16 s = map of_char s"

text \<open>
  The code points of a string as a regular expression with the \<open>u\<close> flag reads them,
  each as the one or two code units that encode it: a high surrogate followed by a low
  surrogate is one code point, any other code unit is a code point of its own.
\<close>

definition is_high_surrogate :: "code_unit \<Rightarrow> bool" where
  "is_high_surrogate u \<longleftrightarrow> 55296 \<le> u \<and> u \<le> 56319"

definition is_low_surrogate :: "code_unit \<Rightarrow> bool" where
  "is_low_surrogate u \<longleftrightarrow> 56320 \<le> u \<and> u \<le> 57343"

fun code_points :: "js_string \<Rightarrow> js_string list" where
  "code_points [] = []"
| "code_points [u] = [[u]]"
| "code_points (h # l # us) =
     (if is_high_surrogate h \<and> is_low_surrogate l then [h, l] # code_points us
      else [h] # code_points (l # us))"

fun code_point_of :: "js_string \<Rightarrow> code_point" where
  "code_point_of [h, l] = 65536 + (h - 55296) * 1024 + (l - 56320)"
| "code_point_of [u] = u"
| "code_point_of us = 0"

section \<open>Data model (types.ts)\<close>

text \<open>
  The enum \<open>Language\<close> and the interfaces \<open>WordDetail\<close>, \<open>SavedWord\<close> and
  \<open>ProcessedTextPart\<close>. Field names carry a prefix for their interface (\<open>sw.term\<close>
  is \<open>sw_term\<close>, \<open>p.value\<close> is \<open>p_value\<close>, \<open>details.definition\<close> is
  \<open>wd_definition\<close>), since several of the bare names are reserved words here.

  \<open>JSON.parse(...) as WordDetail\<close> is an unchecked cast, so at run time every field of a
  \<open>WordDetail\<close> may be missing, also the two the interface declares as required: all
  fields are optional in the model.
\<close>

datatype Language =
  ENGLISH | SPANISH | FRENCH | GERMAN | ITALIAN | PORTUGUESE | HEBREW
  | ARABIC | CHINESE | JAPANESE | KOREAN | RUSSIAN | HINDI

fun language_name :: "Language \<Rightarrow> js_string" where
  "language_name ENGLISH = utf16 ''English''"
| "language_name SPANISH = utf16 ''Spanish''"
| "language_name FRENCH = utf16 ''French''"
| "language_name GERMAN = utf16 ''German''"
| "language_name ITALIAN = utf16 ''Italian''"
| "language_name PORTUGUESE = utf16 ''Portuguese''"
| "language_name HEBREW = utf16 ''Hebrew''"
| "language_name ARABIC = utf16 ''Arabic''"
| "language_name CHINESE = utf16 ''Chinese''"
| "language_name JAPANESE = utf16 ''Japanese''"
| "language_name KOREAN = utf16 ''Korean''"
| "language_name RUSSIAN = utf16 ''Russian''"
| "language_name HINDI = utf16 ''Hindi''"

record WordDetail =
  wd_definition :: "js_string option"
  wd_pronunciation :: "js_string option"
  wd_exampleSentences :: "js_string list option"
  wd_partOfSpeech :: "js_string option"
  wd_relatedWords :: "js_string list option"
  wd_translation :: "js_string option"
  wd_audioBase64 :: "js_string option"

record SavedWord =
  sw_term :: js_string
  sw_sourceLanguage :: Language
  sw_targetLanguage :: Language
  sw_details :: WordDetail
  sw_savedAt :: nat

datatype part_type = word | whitespace | punctuation

record ProcessedTextPart =
  p_type :: part_type
  p_value :: js_string
  p_originalWord :: "js_string option"
  p_id :: js_string

section \<open>The host: what the JavaScript engine and the environment supply\<close>

text \<open>
  The table of the code points in the Unicode categories L and N (the class
  \<open>[\p{L}\p{N}]\<close>), the table of the class \<open>\s\<close>, the case mapping of
  \<open>String.prototype.toLowerCase\<close>, \<open>JSON.parse\<close> (\<open>None\<close> where it throws a
  SyntaxError) and \<open>process.env.API_KEY\<close> are not code of this repository. They are
  parameters of the model, so every general theorem below holds for the real ones.
\<close>

record host =
  is_letter_or_number :: "code_point \<Rightarrow> bool"
  is_whitespace :: "code_point \<Rightarrow> bool"
  toLowerCase :: "js_string \<Rightarrow> js_string"
  JSON_parse :: "js_string \<Rightarrow> WordDetail option"
  API_KEY :: "js_string option"

text \<open>
  The class \<open>\s\<close> as ECMAScript defines it: the white space code points TAB, VT, FF,
  U+FEFF and the space separators (category Zs: U+0020, U+00A0, U+1680, U+2000-U+200A,
  U+202F, U+205F, U+3000), and the line terminators LF, CR, U+2028 and U+2029. Beside it
  the code points with the Unicode property White_Space, which has U+0085 and has not
  U+FEFF.
\<close>

definition js_whitespace :: "code_point \<Rightarrow> bool" where
  "js_whitespace n \<longleftrightarrow>
     (9 \<le> n \<and> n \<le> 13) \<or> n = 32 \<or> n = 160 \<or> n = 5760 \<or> (8192 \<le> n \<and> n \<le> 8202)
     \<or> n = 8232 \<or> n = 8233 \<or> n = 8239 \<or> n = 8287 \<or> n = 12288 \<or> n = 65279"

definition unicode_white_space :: "code_point \<Rightarrow> bool" where
  "unicode_white_space n \<longleftrightarrow>
     (9 \<le> n \<and> n \<le> 13) \<or> n = 32 \<or> n = 133 \<or> n = 160 \<or> n = 5760
     \<or> (8192 \<le> n \<and> n \<le> 8202) \<or> n = 8232 \<or> n = 8233 \<or> n = 8239 \<or> n = 8287
     \<or> n = 12288"

text \<open>
  For the examples: the letters and numbers among the code points U+0000 to U+00FF, read
  off the Unicode character database (letters A-Z, a-z, U+00AA, U+00B5, U+00BA,
  U+00C0-U+00D6, U+00D8-U+00F6, U+00F8-U+00FF; numbers 0-9, U+00B2, U+00B3, U+00B9,
  U+00BC-U+00BE), and the lower casing of that range (32 is added to A-Z, U+00C0-U+00D6
  and U+00D8-U+00DE). The examples apply these two tables to code points of that range
  only, and to U+FEFF, which is neither a letter nor a number.
\<close>

definition latin1_letter_or_number :: "code_point \<Rightarrow> bool" where
  "latin1_letter_or_number n \<longleftrightarrow>
     (65 \<le> n \<and> n \<le> 90) \<or> (97 \<le> n \<and> n \<le> 122) \<or> n = 170 \<or> n = 181 \<or> n = 186
     \<or> (192 \<le> n \<and> n \<le> 214) \<or> (216 \<le> n \<and> n \<le> 246) \<or> (248 \<le> n \<and> n \<le> 255)
     \<or> (48 \<le> n \<and> n \<le> 57) \<or> n = 178 \<or> n = 179 \<or> n = 185 \<or> (188 \<le> n \<and> n \<le> 190)"

definition latin1_lower :: "code_unit \<Rightarrow> code_unit" where
  "latin1_lower n =
     (if (65 \<le> n \<and> n \<le> 90) \<or> (192 \<le> n \<and> n \<le> 214) \<or> (216 \<le> n \<and> n \<le> 222)
      then n + 32 else n)"

definition latin1_host :: "(js_string \<Rightarrow> WordDetail option) \<Rightarrow> js_string option \<Rightarrow> host" where
  "latin1_host parse key =
     \<lparr> is_letter_or_number = latin1_letter_or_number,
       is_whitespace = js_whitespace,
       toLowerCase = map latin1_lower,
       JSON_parse = parse,
       API_KEY = key \<rparr>"

section \<open>Tokenization (App.tsx, the first effect)\<close>

text \<open>The decimal rendering of \<open>parts.length\<close> inside a template literal.\<close>

fun show_nat :: "nat \<Rightarrow> js_string" where
  "show_nat n =
     (if n < 10 then [48 + int n]
      else show_nat (n div 10) @ [48 + int (n mod 10)])"

declare show_nat.simps [simp del]

text \<open>
  Whether one code point, given by its code units, is in the class \<open>[\p{L}\p{N}]\<close>, and
  whether it is in the class \<open>\s\<close>.
\<close>

definition matches_word :: "host \<Rightarrow> js_string \<Rightarrow> bool" where
  "matches_word H c = is_letter_or_number H (code_point_of c)"

definition matches_space :: "host \<Rightarrow> js_string \<Rightarrow> bool" where
  "matches_space H c = is_whitespace H (code_point_of c)"

text \<open>
  The loop \<open>while ((match = currentRegex.exec(inputText)) !== null)\<close> over the
  global regex \<open>/([\p{L}\p{N}]+)|(\s+)|([^\p{L}\p{N}\s]+)/gu\<close>. The first argument
  of \<open>exec_loop\<close> is the input from \<open>lastIndex\<close> on, as code points; the second is the
  array \<open>parts\<close> built so far. The code point at \<open>lastIndex\<close> always starts a match,
  since the three alternatives are tried in order and the third accepts whatever the
  first two refuse; each group is a greedy \<open>+\<close>, so it takes the longest run of its
  class. The value of a match is the code units of its code points.
\<close>

function exec_loop :: "host \<Rightarrow> js_string list \<Rightarrow> ProcessedTextPart list \<Rightarrow> ProcessedTextPart list" where
  "exec_loop H [] parts = parts"
| "exec_loop H (c # cs) parts =
     (if matches_word H c then
        (let v = concat (c # takeWhile (matches_word H) cs);
             cleanedWord = toLowerCase H v
         in exec_loop H (dropWhile (matches_word H) cs)
              (parts @ [\<lparr> p_type = word, p_value = v, p_originalWord = Some cleanedWord,
                          p_id = utf16 ''word-'' @ show_nat (length parts) @ utf16 ''-''
                                 @ cleanedWord \<rparr>]))
      else if matches_space H c then
        (let v = concat (c # takeWhile (matches_space H) cs)
         in exec_loop H (dropWhile (matches_space H) cs)
              (parts @ [\<lparr> p_type = whitespace, p_value = v, p_originalWord = None,
                          p_id = utf16 ''ws-'' @ show_nat (length parts) \<rparr>]))
      else
        (let other = (\<lambda>x. \<not> matches_word H x \<and> \<not> matches_space H x);
             v = concat (c # takeWhile other cs)
         in exec_loop H (dropWhile other cs)
              (parts @ [\<lparr> p_type = punctuation, p_value = v, p_originalWord = None,
                          p_id = utf16 ''punct-'' @ show_nat (length parts) \<rparr>])))"
  by pat_completeness auto
termination
  by (relation "measure (\<lambda>(H, s, parts). length s)")
     (auto simp: less_Suc_eq_le length_dropWhile_le)

declare exec_loop.simps(2) [simp del]

text \<open>The body of the effect: \<open>if (!inputText)\<close> gives the empty array, else the loop.\<close>

definition tokenize :: "host \<Rightarrow> js_string \<Rightarrow> ProcessedTextPart list" where
  "tokenize H inputText =
     (if inputText = [] then [] else exec_loop H (code_points inputText) [])"

text \<open>
  The class of a code point, in the order the alternatives of the regex are tried, and
  what the specification says of one part beside its class: it is not empty, and it
  carries the lower-cased form exactly when it is a word.
\<close>

definition char_class :: "host \<Rightarrow> js_string \<Rightarrow> part_type" where
  "char_class H c =
     (if matches_word H c then word
      else if matches_space H c then whitespace else punctuation)"

definition part_ok :: "host \<Rightarrow> ProcessedTextPart \<Rightarrow> bool" where
  "part_ok H p \<longleftrightarrow>
     p_value p \<noteq> [] \<and>
     p_originalWord p = (if p_type p = word then Some (toLowerCase H (p_value p)) else None)"

text \<open>
  The maximal runs of a list under a classification: neighbours of the same class are
  grouped, each group with its class.
\<close>

fun runs :: "('a \<Rightarrow> 'k) \<Rightarrow> 'a list \<Rightarrow> ('k \<times> 'a list) list" where
  "runs f [] = []"
| "runs f (x # xs) =
     (case runs f xs of
        [] \<Rightarrow> [(f x, [x])]
      | (k, r) # rest \<Rightarrow> if k = f x then (k, x # r) # rest else (f x, [x]) # (k, r) # rest)"

section \<open>Selection resolution (App.tsx, handleMouseUp)\<close>

text \<open>
  What \<open>handleMouseUp\<close> reads of the browser: \<open>window.getSelection()\<close> (absent when
  it is null), its \<open>rangeCount\<close> and \<open>isCollapsed\<close>, whether the clickable text
  element exists and contains the range, and for each end of the range the
  \<open>data-part-index\<close> of the element \<open>findPartElement\<close> finds (\<open>None\<close> when it
  finds none). The rendering writes the list index of each part into that attribute, so
  a present index is a natural number.
\<close>

record dom_selection =
  rangeCount :: nat
  isCollapsed :: bool
  withinClickableText :: bool
  startPartIndex :: "nat option"
  endPartIndex :: "nat option"

text \<open>\<open>parseInt(element?.dataset.partIndex || '-1', 10)\<close>\<close>

definition parsePartIndex :: "nat option \<Rightarrow> int" where
  "parsePartIndex e = (case e of None \<Rightarrow> - 1 | Some i \<Rightarrow> int i)"

text \<open>
  \<open>Array.prototype.slice(start, end)\<close>: a negative argument counts from the end of the
  array, and both are clamped to the array.
\<close>

definition slice :: "'a list \<Rightarrow> int \<Rightarrow> int \<Rightarrow> 'a list" where
  "slice xs start end' =
     (let len = int (length xs);
          k = (if start < 0 then max (len + start) 0 else min start len);
          final = (if end' < 0 then max (len + end') 0 else min end' len)
      in take (nat (final - k)) (drop (nat k) xs))"

text \<open>\<open>Array.prototype.join(separator)\<close> on an array of strings.\<close>

fun join :: "js_string \<Rightarrow> js_string list \<Rightarrow> js_string" where
  "join sep [] = []"
| "join sep [x] = x"
| "join sep (x # y # ys) = x @ sep @ join sep (y # ys)"

definition selectedWordParts :: "ProcessedTextPart list \<Rightarrow> int \<Rightarrow> int \<Rightarrow> ProcessedTextPart list" where
  "selectedWordParts processedTextParts startIdx endIdx =
     (let actualStartIdx = min startIdx endIdx;
          actualEndIdx = max startIdx endIdx;
          relevantParts = slice processedTextParts actualStartIdx (actualEndIdx + 1)
      in filter (\<lambda>p. p_type p = word) relevantParts)"

text \<open>
  The decision of \<open>handleMouseUp\<close>: the term it passes to \<open>handleTermClick\<close>, or
  \<open>None\<close> where it returns without a lookup. Every branch clears the browser's
  selection, so a lookup is the only thing that tells the branches apart.
\<close>

definition handleMouseUp_term :: "ProcessedTextPart list \<Rightarrow> dom_selection option \<Rightarrow> js_string option" where
  "handleMouseUp_term processedTextParts selection =
     (case selection of
        None \<Rightarrow> None
      | Some sel \<Rightarrow>
          if rangeCount sel = 0 \<or> isCollapsed sel then None
          else if \<not> withinClickableText sel then None
          else
            (let startIdx = parsePartIndex (startPartIndex sel);
                 endIdx = parsePartIndex (endPartIndex sel)
             in if startIdx = - 1 \<or> endIdx = - 1 then None
                else
                  (let ws = selectedWordParts processedTextParts startIdx endIdx
                   in if length ws \<ge> 2 then Some (join (utf16 '' '') (map p_value ws)) else None)))"

text \<open>
  The resolver as section 4.2 of the specification words it, for comparison with the
  handler: the span is two optional part indices, the result one of four classes.
\<close>

datatype PhraseResolution =
  NoSelection
  | SingleWord ProcessedTextPart
  | Phrase "ProcessedTextPart list"
  | NonWordSelection

definition spec_resolve :: "nat option \<times> nat option \<Rightarrow> ProcessedTextPart list \<Rightarrow> PhraseResolution" where
  "spec_resolve span parts =
     (case span of
        (Some startIndex, Some endIndex) \<Rightarrow>
          (let start = min startIndex endIndex;
               end' = max startIndex endIndex;
               ws = filter (\<lambda>p. p_type p = word) (take (Suc end' - start) (drop start parts))
           in case ws of
                [] \<Rightarrow> NonWordSelection
              | [w] \<Rightarrow> SingleWord w
              | _ \<Rightarrow> Phrase ws)
      | _ \<Rightarrow> NoSelection)"

text \<open>A selection that passes the guards of the handler before the indices are read.\<close>

definition span_selection :: "nat option \<Rightarrow> nat option \<Rightarrow> dom_selection" where
  "span_selection a b =
     \<lparr> rangeCount = 1, isCollapsed = False, withinClickableText = True,
       startPartIndex = a, endPartIndex = b \<rparr>"

section \<open>The provider service (services/geminiService.ts, getTermDetails)\<close>

text \<open>
  A promise that has settled, and the errors that can be thrown inside
  \<open>getTermDetails\<close>: the missing key of \<open>getGeminiClient\<close>, a rejected provider
  call, the TypeError of \<open>textResponse.text.trim()\<close> on a response without text, and
  the \<open>JSON_PARSE_ERROR\<close> the function throws itself.
\<close>

datatype 'a settled = Fulfilled 'a | Rejected js_string

datatype js_error = ApiKeyUndefined | ProviderRejected js_string | TypeError | JSON_PARSE_ERROR

text \<open>
  The two responses of \<open>ai.models.generateContent\<close>, as far as the function reads
  them: the \<open>text\<close> of the first, and the path
  \<open>candidates?.[0]?.content?.parts?.[0]?.inlineData?.data\<close> of the second.
\<close>

datatype text_response = TextResponse (response_text: "js_string option")

datatype inline_blob = InlineData (blob_data: "js_string option")

datatype content_part = ContentPart (inlineData: "inline_blob option")

datatype response_content = Content (content_parts: "content_part list option")

datatype response_candidate = Candidate (candidate_content: "response_content option")

datatype audio_response = AudioResponse (candidates: "response_candidate list option")

text \<open>
  What the provider does with the two calls of one lookup: how each settles, and which
  settles first.
\<close>

record provider_responses =
  textDetails :: "text_response settled"
  audioDetails :: "audio_response settled"
  audioSettlesFirst :: bool

text \<open>Optional chaining: \<open>xs?.[0]\<close> on an optional array.\<close>

definition first_of :: "'a list option \<Rightarrow> 'a option" where
  "first_of xs = (case xs of Some (x # _) \<Rightarrow> Some x | _ \<Rightarrow> None)"

definition audio_data :: "audio_response \<Rightarrow> js_string option" where
  "audio_data audioResponse =
     Option.bind (first_of (candidates audioResponse)) (\<lambda>c.
     Option.bind (candidate_content c) (\<lambda>ct.
     Option.bind (first_of (content_parts ct)) (\<lambda>p.
     Option.bind (inlineData p) blob_data)))"

text \<open>\<open>audioBase64 || undefined\<close>: the empty string is falsy.\<close>

definition or_undefined :: "js_string option \<Rightarrow> js_string option" where
  "or_undefined a = (case a of Some s \<Rightarrow> (if s = [] then None else Some s) | None \<Rightarrow> None)"

text \<open>
  \<open>String.prototype.trim\<close> (it removes the white space and line terminator code
  points at both ends, the class \<open>\s\<close>), \<open>substring(start, end)\<close> (indices in code
  units, clamped to the string, and swapped when the first is the larger), and the
  Markdown fence the function strips: \<open>startsWith('```json\n') && endsWith('\n```')\<close>.
\<close>

definition trim :: "host \<Rightarrow> js_string \<Rightarrow> js_string" where
  "trim H s =
     concat (rev (dropWhile (matches_space H) (rev (dropWhile (matches_space H) (code_points s)))))"

definition substring :: "js_string \<Rightarrow> int \<Rightarrow> int \<Rightarrow> js_string" where
  "substring s start end' =
     (let len = int (length s);
          a = max 0 (min start len);
          b = max 0 (min end' len);
          lo = min a b;
          hi = max a b
      in take (nat (hi - lo)) (drop (nat lo) s))"

definition fence_open :: js_string where
  "fence_open = [96, 96, 96] @ utf16 ''json'' @ [10]"

definition fence_close :: js_string where
  "fence_close = [10, 96, 96, 96]"

definition startsWith :: "js_string \<Rightarrow> js_string \<Rightarrow> bool" where
  "startsWith s p \<longleftrightarrow> take (length p) s = p"

definition endsWith :: "js_string \<Rightarrow> js_string \<Rightarrow> bool" where
  "endsWith s p \<longleftrightarrow> length p \<le> length s \<and> drop (length s - length p) s = p"

definition cleanJson :: "js_string \<Rightarrow> js_string" where
  "cleanJson jsonStr =
     (if startsWith jsonStr fence_open \<and> endsWith jsonStr fence_close
      then substring jsonStr 8 (int (length jsonStr) - 4)
      else jsonStr)"

text \<open>
  The request for the text details: the prompt (a template literal, with its line breaks
  and indentation) and the response schema. Both mention a translation only when the two
  languages differ.
\<close>

definition nl :: js_string where
  "nl = [10]"

definition dq :: js_string where
  "dq = [34]"

definition textPrompt :: "js_string \<Rightarrow> Language \<Rightarrow> Language \<Rightarrow> js_string" where
  "textPrompt term' sourceLanguage targetLanguage =
     utf16 ''Provide the following details for the term '' @ dq @ term' @ dq @ utf16 '' in ''
       @ language_name sourceLanguage @ utf16 '':'' @ nl
     @ utf16 ''    1. A concise definition.'' @ nl
     @ utf16 ''    2. Phonetic pronunciation (if applicable).'' @ nl
     @ utf16 ''    3. Three example sentences using the term in '' @ language_name sourceLanguage
       @ utf16 ''.'' @ nl
     @ utf16 ''    4. Its part of speech (if applicable to a phrase, provide the primary type, ''
       @ utf16 ''otherwise for a single word).'' @ nl
     @ utf16 ''    5. Two related words or phrases (synonyms or antonyms) in ''
       @ language_name sourceLanguage @ utf16 ''.'' @ nl
     @ utf16 ''    '' @ (if sourceLanguage \<noteq> targetLanguage
                   then utf16 ''6. A translation of the term to '' @ language_name targetLanguage @ utf16 ''.''
                   else []) @ nl
     @ nl
     @ utf16 ''    Format the response as a JSON object strictly adhering to the schema provided.''"

datatype schema_type = STRING | ARRAY_OF_STRING

record schema_property =
  prop_type :: schema_type
  prop_description :: js_string

record response_schema =
  properties :: "(js_string \<times> schema_property) list"
  required :: "js_string list"

definition textResponseSchema :: "js_string \<Rightarrow> Language \<Rightarrow> Language \<Rightarrow> response_schema" where
  "textResponseSchema term' sourceLanguage targetLanguage =
     \<lparr> properties =
         [(utf16 ''definition'', \<lparr> prop_type = STRING, prop_description =
             utf16 ''Definition of the term '' @ dq @ term' @ dq @ utf16 '' in ''
               @ language_name sourceLanguage @ utf16 ''.'' \<rparr>),
          (utf16 ''pronunciation'', \<lparr> prop_type = STRING, prop_description =
             utf16 ''Phonetic pronunciation of '' @ dq @ term' @ dq @ utf16 ''.'' \<rparr>),
          (utf16 ''exampleSentences'', \<lparr> prop_type = ARRAY_OF_STRING, prop_description =
             utf16 ''Three example sentences using '' @ dq @ term' @ dq @ utf16 '' in ''
               @ language_name sourceLanguage @ utf16 ''.'' \<rparr>),
          (utf16 ''partOfSpeech'', \<lparr> prop_type = STRING, prop_description =
             utf16 ''Part of speech for '' @ dq @ term' @ dq @ utf16 ''.'' \<rparr>),
          (utf16 ''relatedWords'', \<lparr> prop_type = ARRAY_OF_STRING, prop_description =
             utf16 ''Two related words (synonyms/antonyms) for '' @ dq @ term' @ dq @ utf16 '' in ''
               @ language_name sourceLanguage @ utf16 ''.'' \<rparr>)]
         @ (if sourceLanguage \<noteq> targetLanguage
            then [(utf16 ''translation'', \<lparr> prop_type = STRING, prop_description =
                    utf16 ''Translation of '' @ dq @ term' @ dq @ utf16 '' to ''
                      @ language_name targetLanguage @ utf16 ''.'' \<rparr>)]
            else []),
       required = [utf16 ''definition'', utf16 ''exampleSentences''] \<rparr>"

text \<open>
  \<open>await Promise.all([textDetailsPromise, audioDetailsPromise])\<close>: it fulfils when
  both have fulfilled, and rejects with the reason of the first promise that rejects. The
  third argument says whether the second promise settles before the first.
\<close>

definition Promise_all :: "'a settled \<Rightarrow> 'b settled \<Rightarrow> bool \<Rightarrow> ('a \<times> 'b) settled" where
  "Promise_all p q secondFirst =
     (case p of
        Fulfilled x \<Rightarrow> (case q of Fulfilled y \<Rightarrow> Fulfilled (x, y) | Rejected e \<Rightarrow> Rejected e)
      | Rejected e \<Rightarrow>
          (case q of
             Fulfilled y \<Rightarrow> Rejected e
           | Rejected e' \<Rightarrow> Rejected (if secondFirst then e' else e)))"

text \<open>
  The body of the outer \<open>try\<close> of \<open>getTermDetails\<close>: \<open>Inl\<close> is a throw, \<open>Inr\<close> the
  value of the \<open>return\<close> inside the \<open>try\<close>. The requests themselves only reach the
  provider; its two settled responses are the argument \<open>R\<close>.
\<close>

definition getTermDetails_try ::
    "host \<Rightarrow> js_string \<Rightarrow> Language \<Rightarrow> Language \<Rightarrow> provider_responses \<Rightarrow> js_error + WordDetail" where
  "getTermDetails_try H term' sourceLanguage targetLanguage R =
     (case API_KEY H of
        None \<Rightarrow> Inl ApiKeyUndefined
      | Some k \<Rightarrow>
          if k = [] then Inl ApiKeyUndefined
          else
            (case Promise_all (textDetails R) (audioDetails R) (audioSettlesFirst R) of
               Rejected e \<Rightarrow> Inl (ProviderRejected e)
             | Fulfilled (textResponse, audioResponse) \<Rightarrow>
                 (case response_text textResponse of
                    None \<Rightarrow> Inl TypeError
                  | Some t \<Rightarrow>
                      (let jsonStr = trim H t;
                           cleanJsonStr = cleanJson jsonStr
                       in case JSON_parse H cleanJsonStr of
                            None \<Rightarrow> Inl JSON_PARSE_ERROR
                          | Some textWordDetail \<Rightarrow>
                              (let audioBase64 = audio_data audioResponse
                               in Inr (textWordDetail
                                         \<lparr> wd_audioBase64 := or_undefined audioBase64 \<rparr>))))))"

text \<open>
  The function with its \<open>catch\<close>: both branches of the test on the message return
  \<open>null\<close>, so the promise of \<open>getTermDetails\<close> never rejects.
\<close>

definition getTermDetails ::
    "host \<Rightarrow> js_string \<Rightarrow> Language \<Rightarrow> Language \<Rightarrow> provider_responses \<Rightarrow> WordDetail option" where
  "getTermDetails H term' sourceLanguage targetLanguage R =
     (case getTermDetails_try H term' sourceLanguage targetLanguage R of
        Inr details \<Rightarrow> Some details
      | Inl error \<Rightarrow> (if error = JSON_PARSE_ERROR then None else None))"

section \<open>The application state (App.tsx)\<close>

text \<open>
  The \<open>useState\<close> variables of \<open>App\<close>, under their own names, and three fields for
  what the event loop holds on behalf of the component: the pending \<open>setTimeout\<close> of
  the detection effect with the \<open>inputText\<close> its closure captured, the calls of
  \<open>detectLanguage\<close> that have not settled yet, and the calls of \<open>getTermDetails\<close>
  that have not settled yet, each with its arguments.
\<close>

record app_state =
  inputText :: js_string
  detectedSourceLanguage :: "Language option"
  isDetectingLanguage :: bool
  targetLanguage :: Language
  processedTextParts :: "ProcessedTextPart list"
  selectedTerm :: "js_string option"
  wordDetails :: "WordDetail option"
  isModalOpen :: bool
  isLoading :: bool
  error :: "js_string option"
  savedWords :: "SavedWord list"
  debounceTimer :: "js_string option"
  pendingDetections :: "js_string list"
  pendingLookups :: "(js_string \<times> Language \<times> Language) list"

definition DEFAULT_TARGET_LANGUAGE :: Language where
  "DEFAULT_TARGET_LANGUAGE = ENGLISH"

text \<open>The state after the first render: both effects have run once on the empty input.\<close>

definition initial_state :: app_state where
  "initial_state =
     \<lparr> inputText = [], detectedSourceLanguage = None, isDetectingLanguage = False,
       targetLanguage = DEFAULT_TARGET_LANGUAGE, processedTextParts = [],
       selectedTerm = None, wordDetails = None, isModalOpen = False, isLoading = False,
       error = None, savedWords = [], debounceTimer = Some [],
       pendingDetections = [], pendingLookups = [] \<rparr>"

definition effectiveSourceLanguage :: "app_state \<Rightarrow> Language" where
  "effectiveSourceLanguage st =
     (case detectedSourceLanguage st of Some l \<Rightarrow> l | None \<Rightarrow> ENGLISH)"

subsection \<open>The two effects on the input text\<close>

text \<open>
  The tokenization effect, and the detection effect: its cleanup clears the timer of the
  previous run, its body sets a new one for the current input.
\<close>

definition tokenizeEffect :: "host \<Rightarrow> app_state \<Rightarrow> app_state" where
  "tokenizeEffect H st =
     (if inputText st = []
      then st \<lparr> processedTextParts := [], detectedSourceLanguage := None \<rparr>
      else st \<lparr> processedTextParts := tokenize H (inputText st) \<rparr>)"

definition detectionEffect :: "app_state \<Rightarrow> app_state" where
  "detectionEffect st = st \<lparr> debounceTimer := Some (inputText st) \<rparr>"

text \<open>
  \<open>setInputText\<close> from the text area. React runs the effects of a render only when a
  dependency changed, so setting the text it already has runs nothing.
\<close>

definition onInputChange :: "host \<Rightarrow> js_string \<Rightarrow> app_state \<Rightarrow> app_state" where
  "onInputChange H v st =
     (if v = inputText st then st
      else detectionEffect (tokenizeEffect H (st \<lparr> inputText := v \<rparr>)))"

text \<open>
  The timer fires: \<open>autoDetect\<close> runs up to its \<open>await\<close>, on the text its closure
  captured. Then the call settles: \<open>autoDetect\<close> resumes with the answer.
\<close>

definition autoDetect_start :: "host \<Rightarrow> app_state \<Rightarrow> app_state" where
  "autoDetect_start H st =
     (case debounceTimer st of
        None \<Rightarrow> st
      | Some captured \<Rightarrow>
          if trim H captured \<noteq> []
          then st \<lparr> isDetectingLanguage := True,
                    pendingDetections := pendingDetections st @ [captured],
                    debounceTimer := None \<rparr>
          else st \<lparr> detectedSourceLanguage := None, debounceTimer := None \<rparr>)"

definition remove_nth :: "nat \<Rightarrow> 'a list \<Rightarrow> 'a list" where
  "remove_nth i xs = take i xs @ drop (Suc i) xs"

definition autoDetect_resume :: "nat \<Rightarrow> Language option \<Rightarrow> app_state \<Rightarrow> app_state" where
  "autoDetect_resume i lang st =
     (if i < length (pendingDetections st)
      then st \<lparr> detectedSourceLanguage := lang, isDetectingLanguage := False,
                pendingDetections := remove_nth i (pendingDetections st) \<rparr>
      else st)"

subsection \<open>Lookups\<close>

definition MESSAGE_NULL :: js_string where
  "MESSAGE_NULL = utf16 ''The AI could not process this phrase into the requested format. This might happen with very complex or unusual phrases. Please try a simpler phrase or individual words.''"

definition MESSAGE_THROWN :: js_string where
  "MESSAGE_THROWN = utf16 ''An unexpected error occurred while fetching term details. Please try again.''"

text \<open>
  \<open>handleTermClick\<close> up to its \<open>await\<close>, and from the \<open>await\<close> on: the branch for
  details, the branch for \<open>null\<close>, the \<open>catch\<close> and the \<open>finally\<close>. Nothing in the
  second half reads \<open>selectedTerm\<close> or the term of the call.
\<close>

definition handleTermClick :: "js_string \<Rightarrow> Language \<Rightarrow> Language \<Rightarrow> app_state \<Rightarrow> app_state" where
  "handleTermClick term' sourceLang targetLang st =
     st \<lparr> selectedTerm := Some term', wordDetails := None, isModalOpen := True,
          isLoading := True, error := None,
          pendingLookups := pendingLookups st @ [(term', sourceLang, targetLang)] \<rparr>"

definition handleTermClick_resume :: "WordDetail option settled \<Rightarrow> app_state \<Rightarrow> app_state" where
  "handleTermClick_resume outcome st =
     (case outcome of
        Fulfilled (Some details) \<Rightarrow> st \<lparr> wordDetails := Some details, isLoading := False \<rparr>
      | Fulfilled None \<Rightarrow> st \<lparr> error := Some MESSAGE_NULL, isLoading := False \<rparr>
      | Rejected err \<Rightarrow> st \<lparr> error := Some MESSAGE_THROWN, isLoading := False \<rparr>)"

text \<open>
  The pending call number \<open>i\<close> settles, the provider having answered with \<open>R\<close>: its
  \<open>getTermDetails\<close> returns, and its \<open>handleTermClick\<close> resumes.
\<close>

definition lookupSettles :: "host \<Rightarrow> nat \<Rightarrow> provider_responses \<Rightarrow> app_state \<Rightarrow> app_state" where
  "lookupSettles H i R st =
     (if i < length (pendingLookups st)
      then
        (case pendingLookups st ! i of
           (term', sourceLang, targetLang) \<Rightarrow>
             handleTermClick_resume (Fulfilled (getTermDetails H term' sourceLang targetLang R))
               (st \<lparr> pendingLookups := remove_nth i (pendingLookups st) \<rparr>))
      else st)"

definition handleCloseModal :: "app_state \<Rightarrow> app_state" where
  "handleCloseModal st =
     st \<lparr> isModalOpen := False, selectedTerm := None, wordDetails := None, error := None \<rparr>"

text \<open>\<open>clearInput\<close>; the effects run after it when it changed the input text.\<close>

definition clearInput :: "host \<Rightarrow> app_state \<Rightarrow> app_state" where
  "clearInput H st =
     (let st' = st \<lparr> inputText := [], processedTextParts := [], selectedTerm := None,
                      wordDetails := None, isModalOpen := False, isLoading := False,
                      error := None, detectedSourceLanguage := None,
                      isDetectingLanguage := False \<rparr>
      in if inputText st = [] then st' else detectionEffect (tokenizeEffect H st'))"

subsection \<open>Saved words\<close>

definition isAlreadySaved :: "app_state \<Rightarrow> js_string \<Rightarrow> bool" where
  "isAlreadySaved st term' =
     list_ex (\<lambda>sw. sw_term sw = term' \<and> sw_sourceLanguage sw = effectiveSourceLanguage st)
       (savedWords st)"

text \<open>\<open>handleSaveWord\<close>; \<open>now\<close> is the value of \<open>Date.now()\<close>. The empty string is
  falsy, so an empty selected term saves nothing.\<close>

definition handleSaveWord :: "nat \<Rightarrow> app_state \<Rightarrow> app_state" where
  "handleSaveWord now st =
     (case (selectedTerm st, wordDetails st) of
        (Some term', Some details) \<Rightarrow>
          if term' \<noteq> [] \<and> \<not> isLoading st then
            (if \<not> isAlreadySaved st term' then
               st \<lparr> savedWords := savedWords st @
                       [\<lparr> sw_term = term', sw_sourceLanguage = effectiveSourceLanguage st,
                          sw_targetLanguage = targetLanguage st, sw_details = details,
                          sw_savedAt = now \<rparr>] \<rparr>
             else st)
          else st
      | _ \<Rightarrow> st)"

definition handleRemoveWord :: "js_string \<Rightarrow> Language \<Rightarrow> app_state \<Rightarrow> app_state" where
  "handleRemoveWord termToRemove lang st =
     st \<lparr> savedWords :=
            filter (\<lambda>sw. \<not> (sw_term sw = termToRemove \<and> sw_sourceLanguage sw = lang))
              (savedWords st) \<rparr>"

definition isCurrentTermSaved :: "app_state \<Rightarrow> bool" where
  "isCurrentTermSaved st =
     (case selectedTerm st of
        None \<Rightarrow> False
      | Some term' \<Rightarrow> if term' = [] then False else isAlreadySaved st term')"

text \<open>
  What the modal shows: the error box under \<open>error &&\<close>, the detail card under
  \<open>wordDetails && !isLoading && !error\<close>; its title is the selected term.
\<close>

definition truthy :: "js_string option \<Rightarrow> bool" where
  "truthy s \<longleftrightarrow> (case s of None \<Rightarrow> False | Some m \<Rightarrow> m \<noteq> [])"

definition errorShown :: "app_state \<Rightarrow> js_string option" where
  "errorShown st = (if isModalOpen st \<and> truthy (error st) then error st else None)"

definition detailsShown :: "app_state \<Rightarrow> WordDetail option" where
  "detailsShown st =
     (if isModalOpen st \<and> \<not> isLoading st \<and> \<not> truthy (error st) then wordDetails st else None)"

text \<open>
  The save button exists while the modal shows the detail card
  (\<open>wordDetails && !isLoading && !error\<close> inside an open modal) and is disabled while
  the current term is saved.
\<close>

definition saveButtonEnabled :: "app_state \<Rightarrow> bool" where
  "saveButtonEnabled st \<longleftrightarrow>
     isModalOpen st \<and> wordDetails st \<noteq> None \<and> \<not> isLoading st
     \<and> (case error st of None \<Rightarrow> True | Some m \<Rightarrow> m = [])
     \<and> \<not> isCurrentTermSaved st"

subsection \<open>Events\<close>

text \<open>
  One event is one task of the event loop: a handler of the user interface runs to its
  end or to its \<open>await\<close>, a timer fires, or a pending call settles. The component is
  single-threaded, so a run of the application is a list of events.
\<close>

datatype event =
  InputChange js_string
  | SetTargetLanguage Language
  | TimerFires
  | DetectionSettles nat "Language option"
  | WordClick nat
  | MouseUp "dom_selection option"
  | SavedTermClick nat
  | LookupSettles nat provider_responses
  | CloseModal
  | ClearText
  | SaveClick nat
  | RemoveClick nat

definition handleMouseUp :: "dom_selection option \<Rightarrow> app_state \<Rightarrow> app_state" where
  "handleMouseUp selection st =
     (case handleMouseUp_term (processedTextParts st) selection of
        None \<Rightarrow> st
      | Some phraseText \<Rightarrow>
          handleTermClick phraseText (effectiveSourceLanguage st) (targetLanguage st) st)"

fun step :: "host \<Rightarrow> event \<Rightarrow> app_state \<Rightarrow> app_state" where
  "step H (InputChange v) st = onInputChange H v st"
| "step H (SetTargetLanguage l) st = st \<lparr> targetLanguage := l \<rparr>"
| "step H TimerFires st = autoDetect_start H st"
| "step H (DetectionSettles i lang) st = autoDetect_resume i lang st"
| "step H (WordClick i) st =
     (if inputText st \<noteq> [] \<and> i < length (processedTextParts st) then
        (case p_originalWord (processedTextParts st ! i) of
           Some w \<Rightarrow>
             if p_type (processedTextParts st ! i) = word
             then handleTermClick w (effectiveSourceLanguage st) (targetLanguage st) st
             else st
         | None \<Rightarrow> st)
      else st)"
| "step H (MouseUp selection) st =
     (if inputText st \<noteq> [] \<and> processedTextParts st \<noteq> [] then handleMouseUp selection st
      else st)"
| "step H (SavedTermClick i) st =
     (if i < length (savedWords st) then
        (let savedWord = savedWords st ! i
         in handleTermClick (sw_term savedWord) (sw_sourceLanguage savedWord)
              (sw_targetLanguage savedWord) st)
      else st)"
| "step H (LookupSettles i R) st = lookupSettles H i R st"
| "step H CloseModal st = (if isModalOpen st then handleCloseModal st else st)"
| "step H ClearText st = clearInput H st"
| "step H (SaveClick now) st = (if saveButtonEnabled st then handleSaveWord now st else st)"
| "step H (RemoveClick i) st =
     (if i < length (savedWords st) then
        (let savedWord = savedWords st ! i
         in handleRemoveWord (sw_term savedWord) (sw_sourceLanguage savedWord) st)
      else st)"

fun run :: "host \<Rightarrow> event list \<Rightarrow> app_state \<Rightarrow> app_state" where
  "run H [] st = st"
| "run H (e # es) st = run H es (step H e st)"

section \<open>Vocabulary of the specification\<close>

text \<open>
  The key of a saved entry, and the uniqueness invariant of the vocabulary store: no two
  entries share \<open>(term, sourceLanguage)\<close>.
\<close>

definition entry_key :: "SavedWord \<Rightarrow> js_string \<times> Language" where
  "entry_key sw = (sw_term sw, sw_sourceLanguage sw)"

definition unique_keys :: "app_state \<Rightarrow> bool" where
  "unique_keys st \<longleftrightarrow> distinct (map entry_key (savedWords st))"

definition entries_for :: "js_string \<Rightarrow> Language \<Rightarrow> app_state \<Rightarrow> SavedWord list" where
  "entries_for term' lang st = filter (\<lambda>sw. entry_key sw = (term', lang)) (savedWords st)"

text \<open>
  A pending timer of the detection effect is for the text the input has now: the timer of
  an earlier text has been cleared.
\<close>

definition timer_current :: "app_state \<Rightarrow> bool" where
  "timer_current st \<longleftrightarrow>
     (case debounceTimer st of None \<Rightarrow> True | Some captured \<Rightarrow> captured = inputText st)"

text \<open>
  A payload that keeps to a response schema: it has no field the schema does not list,
  and it has every field the schema requires. The fields are named as in the JSON.
\<close>

definition present_fields :: "WordDetail \<Rightarrow> js_string list" where
  "present_fields d =
     (if wd_definition d \<noteq> None then [utf16 ''definition''] else [])
     @ (if wd_pronunciation d \<noteq> None then [utf16 ''pronunciation''] else [])
     @ (if wd_exampleSentences d \<noteq> None then [utf16 ''exampleSentences''] else [])
     @ (if wd_partOfSpeech d \<noteq> None then [utf16 ''partOfSpeech''] else [])
     @ (if wd_relatedWords d \<noteq> None then [utf16 ''relatedWords''] else [])
     @ (if wd_translation d \<noteq> None then [utf16 ''translation''] else [])
     @ (if wd_audioBase64 d \<noteq> None then [utf16 ''audioBase64''] else [])"

definition conforms_to :: "response_schema \<Rightarrow> WordDetail \<Rightarrow> bool" where
  "conforms_to S d \<longleftrightarrow>
     list_all (\<lambda>f. f \<in> set (map fst (properties S))) (present_fields d)
     \<and> list_all (\<lambda>f. f \<in> set (present_fields d)) (required S)"

section \<open>Example inputs\<close>

text \<open>
  Three JSON texts and the values \<open>JSON.parse\<close> gives for them. \<open>example_parse\<close>
  agrees with \<open>JSON.parse\<close> on these three texts; the examples below apply it to these
  texts only.
\<close>

definition json_one :: js_string where
  "json_one = utf16 ''{'' @ dq @ utf16 ''definition'' @ dq @ utf16 '':'' @ dq @ utf16 ''the number 1'' @ dq @ utf16 '',''
     @ dq @ utf16 ''exampleSentences'' @ dq @ utf16 '':[]}''"

definition json_empty :: js_string where
  "json_empty = utf16 ''{}''"

definition json_translated :: js_string where
  "json_translated = utf16 ''{'' @ dq @ utf16 ''definition'' @ dq @ utf16 '':'' @ dq @ utf16 ''the number 1'' @ dq @ utf16 '',''
     @ dq @ utf16 ''exampleSentences'' @ dq @ utf16 '':[],''
     @ dq @ utf16 ''translation'' @ dq @ utf16 '':'' @ dq @ utf16 ''one'' @ dq @ utf16 ''}''"

definition detail_of :: "js_string \<Rightarrow> js_string option \<Rightarrow> WordDetail" where
  "detail_of d t =
     \<lparr> wd_definition = Some d, wd_pronunciation = None, wd_exampleSentences = Some [],
       wd_partOfSpeech = None, wd_relatedWords = None, wd_translation = t,
       wd_audioBase64 = None \<rparr>"

definition no_fields :: WordDetail where
  "no_fields =
     \<lparr> wd_definition = None, wd_pronunciation = None, wd_exampleSentences = None,
       wd_partOfSpeech = None, wd_relatedWords = None, wd_translation = None,
       wd_audioBase64 = None \<rparr>"

definition example_parse :: "js_string \<Rightarrow> WordDetail option" where
  "example_parse s =
     (if s = json_one then Some (detail_of (utf16 ''the number 1'') None)
      else if s = json_empty then Some no_fields
      else if s = json_translated then Some (detail_of (utf16 ''the number 1'') (Some (utf16 ''one'')))
      else None)"

definition example_host :: host where
  "example_host = latin1_host example_parse (Some (utf16 ''key''))"

definition text_ok :: "js_string \<Rightarrow> text_response settled" where
  "text_ok s = Fulfilled (TextResponse (Some s))"


definition audio_empty :: "audio_response settled" where
  "audio_empty = Fulfilled (AudioResponse None)"

definition answers :: "text_response settled \<Rightarrow> audio_response settled \<Rightarrow> provider_responses" where
  "answers t a = \<lparr> textDetails = t, audioDetails = a, audioSettlesFirst = False \<rparr>"

section \<open>Properties of the tokenizer\<close>

lemma concat_code_points: "concat (code_points s) = s"
  by (induction s rule: code_points.induct) simp_all

lemma code_points_nonempty: "list_all (\<lambda>c. c \<noteq> []) (code_points s)"
  by (induction s rule: code_points.induct) simp_all

lemma exec_loop_concat:
  "concat (map p_value (exec_loop H cs parts)) = concat (map p_value parts) @ concat cs"
proof (induction H cs parts rule: exec_loop.induct)
  case (1 H parts)
  then show ?case by simp
next
  case (2 H c cs parts)
  have split: "concat (takeWhile P cs) @ concat (dropWhile P cs) = concat cs" for P
    by (metis concat_append takeWhile_dropWhile_id)
  show ?case
    using "2.IH" split
    by (simp add: exec_loop.simps(2) [of H c cs parts] Let_def)
qed

lemma exec_loop_parts_ok:
  "list_all (\<lambda>c. c \<noteq> []) cs \<Longrightarrow> list_all (part_ok H) parts \<Longrightarrow>
   list_all (part_ok H) (exec_loop H cs parts)"
proof (induction H cs parts rule: exec_loop.induct)
  case (1 H parts)
  then show ?case by simp
next
  case (2 H c cs parts)
  have rest: "list_all (\<lambda>c. c \<noteq> []) (dropWhile P cs)" for P
    using "2.prems"(1) by (auto simp: list_all_iff dest: set_dropWhileD)
  from "2.prems"(1) have c: "c \<noteq> []" by simp
  show ?case
    using "2.IH" "2.prems"(2) rest c
    by (simp add: exec_loop.simps(2) [of H c cs parts] Let_def part_ok_def)
qed

lemma runs_hd:
  "xs \<noteq> [] \<Longrightarrow> \<exists>r rest. runs f xs = (f (hd xs), r) # rest"
  by (cases xs) (auto split: list.splits)

lemma runs_run:
  assumes "list_all (\<lambda>x. f x = k) v" and "rest = [] \<or> f (hd rest) \<noteq> k"
    and "f c = k"
  shows "runs f (c # v @ rest) = (f c, c # v) # runs f rest"
  using assms
proof (induction v arbitrary: c)
  case Nil
  then show ?case
    using runs_hd [of rest f] by (cases "rest = []") (auto split: list.splits)
next
  case (Cons a v)
  then have "runs f (a # v @ rest) = (f a, a # v) # runs f rest"
    by simp
  with Cons.prems show ?case by simp
qed

lemma runs_groups:
  "list_all (\<lambda>(k, r). r \<noteq> [] \<and> list_all (\<lambda>x. f x = k) r) (runs f xs)"
  by (induction xs) (auto split: list.splits)

lemma runs_concat: "concat (map snd (runs f xs)) = xs"
  by (induction xs) (auto split: list.splits)

lemma runs_distinct_adj: "distinct_adj (map fst (runs f xs))"
  by (induction xs) (auto split: list.splits)

lemma takeWhile_class:
  assumes "\<And>x. P x \<Longrightarrow> char_class H x = k"
  shows "list_all (\<lambda>x. char_class H x = k) (takeWhile P cs)"
  using assms by (induction cs) auto

lemma exec_loop_runs:
  assumes "\<And>c. \<not> (is_letter_or_number H c \<and> is_whitespace H c)"
  shows "map (\<lambda>p. (p_type p, p_value p)) (exec_loop H s parts) =
         map (\<lambda>p. (p_type p, p_value p)) parts
         @ map (\<lambda>(k, r). (k, concat r)) (runs (char_class H) s)"
  using assms
proof (induction H s parts rule: exec_loop.induct)
  case (1 H parts)
  then show ?case by simp
next
  case (2 H c cs parts)
  note d = "2.prems"
  have dj: "\<not> (matches_word H x \<and> matches_space H x)" for x
    using d by (simp add: matches_word_def matches_space_def)
  have split: "runs (char_class H) (c # cs) =
          (char_class H c, c # takeWhile P cs) # runs (char_class H) (dropWhile P cs)"
    if "\<And>x. P x \<Longrightarrow> char_class H x = char_class H c"
      and "\<And>x. \<not> P x \<Longrightarrow> char_class H x \<noteq> char_class H c" for P
  proof -
    have a: "list_all (\<lambda>x. char_class H x = char_class H c) (takeWhile P cs)"
      by (rule takeWhile_class) (rule that(1))
    have b: "dropWhile P cs = [] \<or> char_class H (hd (dropWhile P cs)) \<noteq> char_class H c"
      using hd_dropWhile [of P cs] that(2) by blast
    from runs_run [OF a b refl]
    show ?thesis by simp
  qed
  show ?case
  proof (cases "matches_word H c")
    case True
    have cls: "char_class H c = word"
      using True by (simp add: char_class_def)
    have p1: "\<And>x. matches_word H x \<Longrightarrow> char_class H x = char_class H c"
      unfolding cls by (simp add: char_class_def)
    have p2: "\<And>x. \<not> matches_word H x \<Longrightarrow> char_class H x \<noteq> char_class H c"
      unfolding cls by (simp add: char_class_def)
    note r = split [of "matches_word H", OF p1 p2]
    show ?thesis
      unfolding exec_loop.simps(2) [of H c cs parts] Let_def if_P [OF True]
        "2.IH"(1) [OF True refl refl d]
      by (simp add: cls r del: runs.simps)
  next
    case False
    note notLN = this
    show ?thesis
    proof (cases "matches_space H c")
      case True
      have cls: "char_class H c = whitespace"
        using True notLN by (simp add: char_class_def)
      have p1: "\<And>x. matches_space H x \<Longrightarrow> char_class H x = char_class H c"
        unfolding cls using dj by (auto simp: char_class_def)
      have p2: "\<And>x. \<not> matches_space H x \<Longrightarrow> char_class H x \<noteq> char_class H c"
        unfolding cls by (simp add: char_class_def)
      note r = split [of "matches_space H", OF p1 p2]
      show ?thesis
        unfolding exec_loop.simps(2) [of H c cs parts] Let_def if_not_P [OF notLN] if_P [OF True]
          "2.IH"(2) [OF notLN True refl d]
        by (simp add: cls r del: runs.simps)
    next
      case False
      let ?other = "\<lambda>x. \<not> matches_word H x \<and> \<not> matches_space H x"
      have cls: "char_class H c = punctuation"
        using False notLN by (simp add: char_class_def)
      have p1: "\<And>x. ?other x \<Longrightarrow> char_class H x = char_class H c"
        unfolding cls by (simp add: char_class_def)
      have p2: "\<And>x. \<not> ?other x \<Longrightarrow> char_class H x \<noteq> char_class H c"
        unfolding cls by (auto simp: char_class_def)
      note r = split [of ?other, OF p1 p2]
      show ?thesis
        unfolding exec_loop.simps(2) [of H c cs parts] Let_def if_not_P [OF notLN] if_not_P [OF False]
          "2.IH"(3) [OF notLN False refl refl d]
        by (simp add: cls r del: runs.simps)
    qed
  qed
qed

lemma js_whitespace_disjoint: "\<not> (latin1_letter_or_number c \<and> js_whitespace c)"
  by (auto simp: latin1_letter_or_number_def js_whitespace_def)

text \<open>
  C3. For every input string, the values of the parts of its tokenization, concatenated in
  order, are the input string again; the empty string has no parts. The string is any
  sequence of code units, and the tables of the host are any tables.
\<close>

theorem tokenize_round_trip:
  "concat (map p_value (tokenize H s)) = s \<and> tokenize H [] = []"
  by (simp add: tokenize_def exec_loop_concat concat_code_points)

text \<open>
  C4, as the code has it. The white space of the tokenizer is the class \<open>\s\<close> of the
  regular expression, not the Unicode property White_Space. Provided no code point is both
  in \<open>[\p{L}\p{N}]\<close> and in \<open>\s\<close> (true of the real tables), the parts of a
  tokenization, as pairs of type and value, are exactly the maximal runs of the code
  points of the input under the classification: word for \<open>[\p{L}\p{N}]\<close>, white space
  for \<open>\s\<close>, punctuation for the rest. Each run is a non-empty group of code points of
  its class, neighbouring runs differ in class, and the runs together are the input. A
  word part carries its lower-cased form and no other part carries one. On
  \<open>Hello, world! 42\<close> the parts are the seven of the specification.
\<close>

theorem tokenize_classifies:
  assumes "\<And>c. \<not> (is_letter_or_number H c \<and> is_whitespace H c)"
  shows "map (\<lambda>p. (p_type p, p_value p)) (tokenize H s) =
           map (\<lambda>(k, r). (k, concat r)) (runs (char_class H) (code_points s)) \<and>
         list_all (\<lambda>(k, r). r \<noteq> [] \<and> list_all (\<lambda>c. char_class H c = k) r)
           (runs (char_class H) (code_points s)) \<and>
         distinct_adj (map fst (runs (char_class H) (code_points s))) \<and>
         concat (map snd (runs (char_class H) (code_points s))) = code_points s \<and>
         list_all (part_ok H) (tokenize H s) \<and>
         distinct_adj (map p_type (tokenize H s)) \<and>
         concat (map p_value (tokenize H s)) = s \<and>
         tokenize (latin1_host parse key) (utf16 ''Hello, world! 42'') =
           [\<lparr>p_type = word, p_value = utf16 ''Hello'', p_originalWord = Some (utf16 ''hello''),
               p_id = utf16 ''word-0-hello''\<rparr>,
            \<lparr>p_type = punctuation, p_value = utf16 '','', p_originalWord = None,
               p_id = utf16 ''punct-1''\<rparr>,
            \<lparr>p_type = whitespace, p_value = utf16 '' '', p_originalWord = None,
               p_id = utf16 ''ws-2''\<rparr>,
            \<lparr>p_type = word, p_value = utf16 ''world'', p_originalWord = Some (utf16 ''world''),
               p_id = utf16 ''word-3-world''\<rparr>,
            \<lparr>p_type = punctuation, p_value = utf16 ''!'', p_originalWord = None,
               p_id = utf16 ''punct-4''\<rparr>,
            \<lparr>p_type = whitespace, p_value = utf16 '' '', p_originalWord = None,
               p_id = utf16 ''ws-5''\<rparr>,
            \<lparr>p_type = word, p_value = utf16 ''42'', p_originalWord = Some (utf16 ''42''),
               p_id = utf16 ''word-6-42''\<rparr>]"
proof -
  have r: "map (\<lambda>p. (p_type p, p_value p)) (tokenize H s) =
           map (\<lambda>(k, r). (k, concat r)) (runs (char_class H) (code_points s))"
    using assms exec_loop_runs [of H "code_points s" "[]"] by (simp add: tokenize_def)
  have a: "list_all (part_ok H) (tokenize H s)"
    using exec_loop_parts_ok [OF code_points_nonempty, of H "[]" s] by (simp add: tokenize_def)
  have "map p_type (tokenize H s) = map fst (map (\<lambda>p. (p_type p, p_value p)) (tokenize H s))"
    by simp
  also have "\<dots> = map fst (runs (char_class H) (code_points s))"
    unfolding r by (simp add: case_prod_unfold)
  finally have b: "distinct_adj (map p_type (tokenize H s))"
    by (simp add: runs_distinct_adj)
  have c: "concat (map p_value (tokenize H s)) = s"
    by (simp add: tokenize_def exec_loop_concat concat_code_points)
  have d: "tokenize (latin1_host parse key) (utf16 ''Hello, world! 42'') =
           [\<lparr>p_type = word, p_value = utf16 ''Hello'', p_originalWord = Some (utf16 ''hello''),
               p_id = utf16 ''word-0-hello''\<rparr>,
            \<lparr>p_type = punctuation, p_value = utf16 '','', p_originalWord = None,
               p_id = utf16 ''punct-1''\<rparr>,
            \<lparr>p_type = whitespace, p_value = utf16 '' '', p_originalWord = None,
               p_id = utf16 ''ws-2''\<rparr>,
            \<lparr>p_type = word, p_value = utf16 ''world'', p_originalWord = Some (utf16 ''world''),
               p_id = utf16 ''word-3-world''\<rparr>,
            \<lparr>p_type = punctuation, p_value = utf16 ''!'', p_originalWord = None,
               p_id = utf16 ''punct-4''\<rparr>,
            \<lparr>p_type = whitespace, p_value = utf16 '' '', p_originalWord = None,
               p_id = utf16 ''ws-5''\<rparr>,
            \<lparr>p_type = word, p_value = utf16 ''42'', p_originalWord = Some (utf16 ''42''),
               p_id = utf16 ''word-6-42''\<rparr>]"
    by code_simp
  from r runs_groups [of "char_class H" "code_points s"]
    runs_distinct_adj [of "char_class H" "code_points s"]
    runs_concat [of "char_class H" "code_points s"] a b c d
  show ?thesis by blast
qed

theorem tokenize_classifies_witness:
  "map (\<lambda>p. (p_type p, p_value p)) (tokenize (latin1_host (\<lambda>_. None) None) (utf16 ''Hi, you'')) =
     [(word, utf16 ''Hi''), (punctuation, utf16 '',''), (whitespace, utf16 '' ''),
      (word, utf16 ''you'')] \<and>
   map (\<lambda>(k, r). (k, concat r))
     (runs (char_class (latin1_host (\<lambda>_. None) None)) (code_points (utf16 ''Hi, you''))) =
     [(word, utf16 ''Hi''), (punctuation, utf16 '',''), (whitespace, utf16 '' ''),
      (word, utf16 ''you'')] \<and>
   distinct_adj (map p_type (tokenize (latin1_host (\<lambda>_. None) None) (utf16 ''Hi, you''))) \<and>
   list_all (part_ok (latin1_host (\<lambda>_. None) None))
     (tokenize (latin1_host (\<lambda>_. None) None) (utf16 ''Hi, you''))"
proof -
  have h: "\<And>c. \<not> (is_letter_or_number (latin1_host (\<lambda>_. None) None) c \<and>
                   is_whitespace (latin1_host (\<lambda>_. None) None) c)"
    by (simp add: latin1_host_def js_whitespace_disjoint)
  have t: "map (\<lambda>p. (p_type p, p_value p))
             (tokenize (latin1_host (\<lambda>_. None) None) (utf16 ''Hi, you'')) =
             [(word, utf16 ''Hi''), (punctuation, utf16 '',''), (whitespace, utf16 '' ''),
              (word, utf16 ''you'')]"
    by code_simp
  from tokenize_classifies [OF h, of "utf16 ''Hi, you''"] t show ?thesis by simp
qed

text \<open>
  C4, as stated, fails: U+0085 has the Unicode property White_Space, and between two
  letters it is a punctuation part, since it is not in \<open>\s\<close>; U+FEFF has not the
  property, and it is a white space part, since it is in \<open>\s\<close>.
\<close>

theorem tokenize_unicode_whitespace_counterexample:
  "unicode_white_space 133 \<and>
   map (\<lambda>p. (p_type p, p_value p)) (tokenize (latin1_host (\<lambda>_. None) None) [97, 133, 98]) =
     [(word, [97]), (punctuation, [133]), (word, [98])] \<and>
   unicode_white_space 65279 = False \<and>
   map (\<lambda>p. (p_type p, p_value p)) (tokenize (latin1_host (\<lambda>_. None) None) [97, 65279, 98]) =
     [(word, [97]), (whitespace, [65279]), (word, [98])]"
  by code_simp

section \<open>Properties of the selection handler\<close>

lemma slice_nat: "slice xs (int a) (int b + 1) = take (Suc b - a) (drop a xs)"
proof -
  let ?len = "length xs"
  have k: "nat (min (int a) (int ?len)) = min a ?len"
    by (simp add: min_def)
  have f: "nat (min (int b + 1) (int ?len) - min (int a) (int ?len)) = min (Suc b) ?len - min a ?len"
    by (simp add: min_def) linarith
  have "slice xs (int a) (int b + 1) = take (min (Suc b) ?len - min a ?len) (drop (min a ?len) xs)"
    unfolding slice_def Let_def using k f by simp
  also have "\<dots> = take (Suc b - a) (drop a xs)"
    by (cases "a \<le> ?len"; cases "Suc b \<le> ?len") (simp_all add: min_def)
  finally show ?thesis .
qed

lemma selectedWordParts_nat:
  "selectedWordParts parts (int i) (int j) =
     filter (\<lambda>p. p_type p = word) (take (Suc (max i j) - min i j) (drop (min i j) parts))"
  using slice_nat [of parts "min i j" "max i j"]
  by (simp add: selectedWordParts_def Let_def min_def max_def split: if_splits)

text \<open>
  C2. The handler is the resolver of the specification followed by one policy of the
  caller: a lookup is started exactly for a \<open>Phrase\<close>, of the values of its word parts
  joined by single spaces. The word parts the handler computes from the two indices are
  the word parts of the inclusive slice between the smaller and the larger index, in
  order, and the resolver classifies by their number: none is \<open>NonWordSelection\<close>, one
  is \<open>SingleWord\<close>, two or more are \<open>Phrase\<close>; an end of the range that maps to no
  part is \<open>NoSelection\<close>, where the handler returns before it computes anything. On
  the parts of \<open>the quick fox\<close> the span (0,4) is the phrase of the three words, the
  span (0,0) the single word \<open>the\<close>, the span (1,1) a selection without words.
\<close>

theorem handleMouseUp_refines_spec:
  "handleMouseUp_term parts None = None \<and>
   handleMouseUp_term parts (Some sel) =
     (if 0 < rangeCount sel \<and> isCollapsed sel = False \<and> withinClickableText sel
      then case spec_resolve (startPartIndex sel, endPartIndex sel) parts of
             Phrase ws \<Rightarrow> Some (join (utf16 '' '') (map p_value ws))
           | _ \<Rightarrow> None
      else None) \<and>
   spec_resolve (Some i, Some j) parts =
     (case selectedWordParts parts (int i) (int j) of
        [] \<Rightarrow> NonWordSelection
      | [w] \<Rightarrow> SingleWord w
      | w # v # ws \<Rightarrow> Phrase (w # v # ws)) \<and>
   selectedWordParts parts (int i) (int j) =
     filter (\<lambda>p. p_type p = word) (take (Suc (max i j) - min i j) (drop (min i j) parts)) \<and>
   spec_resolve (None, e) parts = NoSelection \<and> spec_resolve (e, None) parts = NoSelection \<and>
   spec_resolve (Some 0, Some 4) (tokenize (latin1_host parse key) (utf16 ''the quick fox'')) =
     Phrase [\<lparr>p_type = word, p_value = utf16 ''the'', p_originalWord = Some (utf16 ''the''),
                p_id = utf16 ''word-0-the''\<rparr>,
             \<lparr>p_type = word, p_value = utf16 ''quick'', p_originalWord = Some (utf16 ''quick''),
                p_id = utf16 ''word-2-quick''\<rparr>,
             \<lparr>p_type = word, p_value = utf16 ''fox'', p_originalWord = Some (utf16 ''fox''),
                p_id = utf16 ''word-4-fox''\<rparr>] \<and>
   spec_resolve (Some 0, Some 0) (tokenize (latin1_host parse key) (utf16 ''the quick fox'')) =
     SingleWord \<lparr>p_type = word, p_value = utf16 ''the'', p_originalWord = Some (utf16 ''the''),
                p_id = utf16 ''word-0-the''\<rparr> \<and>
   spec_resolve (Some 1, Some 1) (tokenize (latin1_host parse key) (utf16 ''the quick fox'')) = NonWordSelection \<and>
   handleMouseUp_term (tokenize (latin1_host parse key) (utf16 ''the quick fox''))
     (Some (span_selection (Some 0) (Some 4))) = Some (utf16 ''the quick fox'') \<and>
   handleMouseUp_term (tokenize (latin1_host parse key) (utf16 ''the quick fox''))
     (Some (span_selection (Some 4) (Some 0))) = Some (utf16 ''the quick fox'')"
proof -
  have a: "handleMouseUp_term parts None = None"
    by (simp add: handleMouseUp_term_def)
  have b: "handleMouseUp_term parts (Some sel) =
     (if 0 < rangeCount sel \<and> isCollapsed sel = False \<and> withinClickableText sel
      then case spec_resolve (startPartIndex sel, endPartIndex sel) parts of
             Phrase ws \<Rightarrow> Some (join (utf16 '' '') (map p_value ws))
           | _ \<Rightarrow> None
      else None)"
    by (auto simp: handleMouseUp_term_def spec_resolve_def parsePartIndex_def Let_def
          selectedWordParts_nat split: option.splits list.splits)
  have c: "spec_resolve (Some i, Some j) parts =
     (case selectedWordParts parts (int i) (int j) of
        [] \<Rightarrow> NonWordSelection
      | [w] \<Rightarrow> SingleWord w
      | w # v # ws \<Rightarrow> Phrase (w # v # ws))"
    by (simp add: spec_resolve_def selectedWordParts_nat Let_def split: list.splits)
  have d: "selectedWordParts parts (int i) (int j) =
     filter (\<lambda>p. p_type p = word) (take (Suc (max i j) - min i j) (drop (min i j) parts))"
    by (rule selectedWordParts_nat)
  have e: "spec_resolve (None, e) parts = NoSelection \<and> spec_resolve (e, None) parts = NoSelection"
    by (simp add: spec_resolve_def split: option.splits)
  have f: "spec_resolve (Some 0, Some 4) (tokenize (latin1_host parse key) (utf16 ''the quick fox'')) =
     Phrase [\<lparr>p_type = word, p_value = utf16 ''the'', p_originalWord = Some (utf16 ''the''),
                p_id = utf16 ''word-0-the''\<rparr>,
             \<lparr>p_type = word, p_value = utf16 ''quick'', p_originalWord = Some (utf16 ''quick''),
                p_id = utf16 ''word-2-quick''\<rparr>,
             \<lparr>p_type = word, p_value = utf16 ''fox'', p_originalWord = Some (utf16 ''fox''),
                p_id = utf16 ''word-4-fox''\<rparr>]"
    by code_simp
  have g: "spec_resolve (Some 0, Some 0) (tokenize (latin1_host parse key) (utf16 ''the quick fox'')) =
     SingleWord \<lparr>p_type = word, p_value = utf16 ''the'', p_originalWord = Some (utf16 ''the''),
                p_id = utf16 ''word-0-the''\<rparr>"
    by code_simp
  have h: "spec_resolve (Some 1, Some 1) (tokenize (latin1_host parse key) (utf16 ''the quick fox'')) = NonWordSelection"
    by code_simp
  have i: "handleMouseUp_term (tokenize (latin1_host parse key) (utf16 ''the quick fox''))
     (Some (span_selection (Some 0) (Some 4))) = Some (utf16 ''the quick fox'')"
    by code_simp
  have j: "handleMouseUp_term (tokenize (latin1_host parse key) (utf16 ''the quick fox''))
     (Some (span_selection (Some 4) (Some 0))) = Some (utf16 ''the quick fox'')"
    by code_simp
  from a b c d e f g h i j show ?thesis by blast
qed

section \<open>Properties of the provider service\<close>

lemma getTermDetails_eq:
  "getTermDetails H t s g R =
     (case getTermDetails_try H t s g R of Inr d \<Rightarrow> Some d | Inl e \<Rightarrow> None)"
  by (simp add: getTermDetails_def split: sum.splits)

lemma getTermDetails_both_fulfilled:
  assumes "API_KEY H = Some k" and "k \<noteq> []"
    and "textDetails R = Fulfilled x" and "audioDetails R = Fulfilled a"
  shows "getTermDetails H term' s g R =
           (case response_text x of
              None \<Rightarrow> None
            | Some t \<Rightarrow>
                (case JSON_parse H (cleanJson (trim H t)) of
                   None \<Rightarrow> None
                 | Some p \<Rightarrow> Some (p \<lparr>wd_audioBase64 := or_undefined (audio_data a)\<rparr>)))"
  using assms
  by (simp add: getTermDetails_eq getTermDetails_try_def Promise_all_def Let_def
      split: option.splits)



lemma example_host_key: "API_KEY example_host = Some (utf16 ''key'')"
  by (simp add: example_host_def latin1_host_def)

lemma example_key_nonempty: "utf16 ''key'' \<noteq> []"
  by (simp add: utf16_def)

lemma example_parse_one:
  "JSON_parse example_host (cleanJson (trim example_host json_one))
   = Some (detail_of (utf16 ''the number 1'') None)"
  by code_simp

lemma messages_differ: "MESSAGE_NULL \<noteq> MESSAGE_THROWN"
  by (simp add: MESSAGE_NULL_def MESSAGE_THROWN_def utf16_def)

lemma schema_keys_same:
  "map fst (properties (textResponseSchema term' l l)) =
     [utf16 ''definition'', utf16 ''pronunciation'', utf16 ''exampleSentences'',
      utf16 ''partOfSpeech'', utf16 ''relatedWords'']"
  by (simp add: textResponseSchema_def)

lemma translation_not_requested:
  "utf16 ''translation'' \<notin> set (map fst (properties (textResponseSchema term' l l)))"
  unfolding schema_keys_same by (simp add: utf16_def)

lemma conforms_no_translation:
  assumes "conforms_to (textResponseSchema term' l l) p"
  shows "wd_translation p = None"
proof (rule ccontr)
  assume "wd_translation p \<noteq> None"
  then have "utf16 ''translation'' \<in> set (present_fields p)"
    by (simp add: present_fields_def)
  with assms have "utf16 ''translation'' \<in> set (map fst (properties (textResponseSchema term' l l)))"
    unfolding conforms_to_def list_all_iff by blast
  with translation_not_requested show False
    by blast
qed

lemma getTermDetails_translation:
  assumes "textDetails R = Fulfilled (TextResponse (Some t))"
    and "JSON_parse H (cleanJson (trim H t)) = Some p"
    and "getTermDetails H term' s g R = Some d"
  shows "wd_translation d = wd_translation p"
  using assms
  by (auto simp: getTermDetails_eq getTermDetails_try_def Promise_all_def Let_def
      split: sum.splits option.splits if_splits settled.splits)




text \<open>
  C6, as the code has it, for a lookup whose two provider calls fulfil. The handler has
  two failure messages, and they differ: one for a \<open>null\<close> result of the service, one
  for an exception of the awaited call. The service returns \<open>null\<close> when the response
  has no text or the text does not parse, and the handler then shows the message for
  \<open>null\<close>. A payload that parses is returned as it is, with the audio merged in: its
  fields are not inspected, so a payload without the required fields resolves the
  lookup.
\<close>

theorem failure_messages:
  assumes "API_KEY H = Some k" and "k \<noteq> []"
    and "textDetails R = Fulfilled x" and "audioDetails R = Fulfilled a"
  shows "MESSAGE_NULL \<noteq> MESSAGE_THROWN \<and>
         error (handleTermClick_resume (Fulfilled None) st) = Some MESSAGE_NULL \<and>
         error (handleTermClick_resume (Rejected e) st) = Some MESSAGE_THROWN \<and>
         error (handleTermClick_resume (Fulfilled (Some d)) st) = error st \<and>
         wordDetails (handleTermClick_resume (Fulfilled (Some d)) st) = Some d \<and>
         getTermDetails H t s g R =
           (case response_text x of
              None \<Rightarrow> None
            | Some txt \<Rightarrow>
                (case JSON_parse H (cleanJson (trim H txt)) of
                   None \<Rightarrow> None
                 | Some p \<Rightarrow> Some (p \<lparr>wd_audioBase64 := or_undefined (audio_data a)\<rparr>))) \<and>
         lookupSettles H (length (pendingLookups st)) R (handleTermClick t s g st) =
           handleTermClick_resume (Fulfilled (getTermDetails H t s g R))
             (handleTermClick t s g st \<lparr>pendingLookups := pendingLookups st\<rparr>)"
proof -
  have a: "error (handleTermClick_resume (Fulfilled None) st) = Some MESSAGE_NULL"
    by (simp add: handleTermClick_resume_def)
  have b: "error (handleTermClick_resume (Rejected e) st) = Some MESSAGE_THROWN"
    by (simp add: handleTermClick_resume_def)
  have c: "error (handleTermClick_resume (Fulfilled (Some d)) st) = error st \<and>
           wordDetails (handleTermClick_resume (Fulfilled (Some d)) st) = Some d"
    by (simp add: handleTermClick_resume_def)
  have l: "lookupSettles H (length (pendingLookups st)) R (handleTermClick t s g st) =
           handleTermClick_resume (Fulfilled (getTermDetails H t s g R))
             (handleTermClick t s g st \<lparr>pendingLookups := pendingLookups st\<rparr>)"
    by (simp add: lookupSettles_def handleTermClick_def remove_nth_def)
  from messages_differ a b c l getTermDetails_both_fulfilled [OF assms, of t s g]
  show ?thesis by simp
qed

theorem failure_messages_witness:
  "getTermDetails example_host (utf16 ''uno'') ENGLISH ENGLISH
     (answers (text_ok (utf16 ''not json'')) audio_empty) = None \<and>
   error (lookupSettles example_host 0 (answers (text_ok (utf16 ''not json'')) audio_empty)
     (handleTermClick (utf16 ''uno'') ENGLISH ENGLISH initial_state)) = Some MESSAGE_NULL \<and>
   getTermDetails example_host (utf16 ''uno'') ENGLISH ENGLISH
     (answers (text_ok json_one) audio_empty) = Some (detail_of (utf16 ''the number 1'') None)"
proof -
  let ?bad = "answers (text_ok (utf16 ''not json'')) audio_empty"
  let ?good = "answers (text_ok json_one) audio_empty"
  have t1: "textDetails ?bad = Fulfilled (TextResponse (Some (utf16 ''not json'')))"
    and t2: "textDetails ?good = Fulfilled (TextResponse (Some json_one))"
    and a1: "audioDetails ?bad = Fulfilled (AudioResponse None)"
    and a2: "audioDetails ?good = Fulfilled (AudioResponse None)"
    by (simp_all add: answers_def text_ok_def audio_empty_def)
  have p1: "JSON_parse example_host (cleanJson (trim example_host (utf16 ''not json''))) = None"
    by code_simp
  have n: "pendingLookups initial_state = []"
    by (simp add: initial_state_def)
  have o: "or_undefined (audio_data (AudioResponse None)) = None"
    by (simp add: or_undefined_def audio_data_def first_of_def)
  have d: "detail_of (utf16 ''the number 1'') None \<lparr>wd_audioBase64 := None\<rparr>
           = detail_of (utf16 ''the number 1'') None"
    by (simp add: detail_of_def)
  note bad = failure_messages [OF example_host_key example_key_nonempty t1 a1,
      where t = "utf16 ''uno''" and s = ENGLISH and g = ENGLISH and st = initial_state]
  note good = failure_messages [OF example_host_key example_key_nonempty t2 a2,
      where t = "utf16 ''uno''" and s = ENGLISH and g = ENGLISH and st = initial_state]
  from bad have g1: "getTermDetails example_host (utf16 ''uno'') ENGLISH ENGLISH ?bad = None"
    by (simp add: p1)
  from bad g1 have e1: "error (lookupSettles example_host 0 ?bad
     (handleTermClick (utf16 ''uno'') ENGLISH ENGLISH initial_state)) = Some MESSAGE_NULL"
    by (simp add: n handleTermClick_resume_def)
  from good have g2: "getTermDetails example_host (utf16 ''uno'') ENGLISH ENGLISH ?good
     = Some (detail_of (utf16 ''the number 1'') None)"
    by (simp add: example_parse_one o d)
  from g1 e1 g2 show ?thesis by blast
qed

text \<open>
  C6, as stated, fails: both provider calls fulfil, the text is the empty object, a
  payload without the two required fields, and no failure follows: the lookup resolves
  to details without fields and no message is shown.
\<close>

theorem invalid_payload_counterexample:
  "set (required (textResponseSchema (utf16 ''uno'') ENGLISH ENGLISH)) =
     {utf16 ''definition'', utf16 ''exampleSentences''} \<and>
   present_fields no_fields = [] \<and>
   conforms_to (textResponseSchema (utf16 ''uno'') ENGLISH ENGLISH) no_fields = False \<and>
   getTermDetails example_host (utf16 ''uno'') ENGLISH ENGLISH
     (answers (text_ok json_empty) audio_empty) = Some no_fields \<and>
   wordDetails (run example_host
     [InputChange (utf16 ''uno''), WordClick 0,
      LookupSettles 0 (answers (text_ok json_empty) audio_empty)]
     initial_state) = Some no_fields \<and>
   error (run example_host
     [InputChange (utf16 ''uno''), WordClick 0,
      LookupSettles 0 (answers (text_ok json_empty) audio_empty)]
     initial_state) = None"
proof -
  have a: "set (required (textResponseSchema (utf16 ''uno'') ENGLISH ENGLISH)) =
     {utf16 ''definition'', utf16 ''exampleSentences''}"
    by (simp add: textResponseSchema_def)
  have b: "present_fields no_fields = []"
    by (simp add: present_fields_def no_fields_def)
  have c: "conforms_to (textResponseSchema (utf16 ''uno'') ENGLISH ENGLISH) no_fields = False"
    by (simp add: conforms_to_def b textResponseSchema_def)
  have d: "getTermDetails example_host (utf16 ''uno'') ENGLISH ENGLISH
     (answers (text_ok json_empty) audio_empty) = Some no_fields"
    by code_simp
  have e: "wordDetails (run example_host
     [InputChange (utf16 ''uno''), WordClick 0,
      LookupSettles 0 (answers (text_ok json_empty) audio_empty)]
     initial_state) = Some no_fields"
    by code_simp
  have f: "error (run example_host
     [InputChange (utf16 ''uno''), WordClick 0,
      LookupSettles 0 (answers (text_ok json_empty) audio_empty)]
     initial_state) = None"
    by code_simp
  from a b c d e f show ?thesis by blast
qed

text \<open>
  C8, as the code has it. The translation of the result is the translation of the parsed
  payload, copied by the merge. When the two languages are equal, the schema sent to the
  provider lists no translation and the prompt is the prompt for different languages
  without its request for one; so a payload that keeps to the schema has no translation,
  and neither has the result.
\<close>

theorem translation_follows_payload:
  assumes "textDetails R = Fulfilled (TextResponse (Some t))"
    and "JSON_parse H (cleanJson (trim H t)) = Some p"
    and "getTermDetails H term' s g R = Some d"
  shows "wd_translation d = wd_translation p \<and>
         utf16 ''translation'' \<notin> set (map fst (properties (textResponseSchema term' s s))) \<and>
         (s = g \<and> conforms_to (textResponseSchema term' s g) p \<longrightarrow> wd_translation d = None) \<and>
         (\<exists>pre post. textPrompt term' s s = pre @ post \<and>
            (\<forall>g'. g' \<noteq> s \<longrightarrow> textPrompt term' s g' =
               pre @ utf16 ''6. A translation of the term to '' @ language_name g' @ utf16 ''.''
               @ post))"
proof -
  have a: "wd_translation d = wd_translation p"
    by (rule getTermDetails_translation [OF assms])
  have c: "s = g \<and> conforms_to (textResponseSchema term' s g) p \<longrightarrow> wd_translation d = None"
    using a conforms_no_translation by auto
  let ?pre = "utf16 ''Provide the following details for the term '' @ dq @ term' @ dq
       @ utf16 '' in '' @ language_name s @ utf16 '':'' @ nl
     @ utf16 ''    1. A concise definition.'' @ nl
     @ utf16 ''    2. Phonetic pronunciation (if applicable).'' @ nl
     @ utf16 ''    3. Three example sentences using the term in '' @ language_name s
       @ utf16 ''.'' @ nl
     @ utf16 ''    4. Its part of speech (if applicable to a phrase, provide the primary type, ''
       @ utf16 ''otherwise for a single word).'' @ nl
     @ utf16 ''    5. Two related words or phrases (synonyms or antonyms) in ''
       @ language_name s @ utf16 ''.'' @ nl
     @ utf16 ''    ''"
  let ?post = "nl @ nl
     @ utf16 ''    Format the response as a JSON object strictly adhering to the schema provided.''"
  have d: "textPrompt term' s s = ?pre @ ?post \<and>
            (\<forall>g'. g' \<noteq> s \<longrightarrow> textPrompt term' s g' =
               ?pre @ utf16 ''6. A translation of the term to '' @ language_name g' @ utf16 ''.''
               @ ?post)"
    by (simp add: textPrompt_def)
  then have "\<exists>pre post. textPrompt term' s s = pre @ post \<and>
            (\<forall>g'. g' \<noteq> s \<longrightarrow> textPrompt term' s g' =
               pre @ utf16 ''6. A translation of the term to '' @ language_name g' @ utf16 ''.''
               @ post)"
    by blast
  with a translation_not_requested c show ?thesis by blast
qed

theorem translation_follows_payload_witness:
  "getTermDetails example_host (utf16 ''uno'') ENGLISH ENGLISH
     (answers (text_ok json_one) audio_empty)
   = Some (detail_of (utf16 ''the number 1'') None) \<and>
   conforms_to (textResponseSchema (utf16 ''uno'') ENGLISH ENGLISH)
     (detail_of (utf16 ''the number 1'') None) \<and>
   wd_translation (detail_of (utf16 ''the number 1'') None) = None"
proof -
  let ?R = "answers (text_ok json_one) audio_empty"
  have r: "textDetails ?R = Fulfilled (TextResponse (Some json_one))"
    by (simp add: text_ok_def answers_def)
  have g: "getTermDetails example_host (utf16 ''uno'') ENGLISH ENGLISH ?R
           = Some (detail_of (utf16 ''the number 1'') None)"
    by code_simp
  have c: "conforms_to (textResponseSchema (utf16 ''uno'') ENGLISH ENGLISH)
             (detail_of (utf16 ''the number 1'') None)"
    by code_simp
  from translation_follows_payload [OF r example_parse_one g] c
  have "wd_translation (detail_of (utf16 ''the number 1'') None) = None"
    by blast
  with g c show ?thesis by blast
qed

text \<open>
  C8, as stated, fails: the languages are equal, the schema lists no translation, the
  provider answers with a payload that has one all the same, and the result has it.
\<close>

theorem unrequested_translation_counterexample:
  "map fst (properties (textResponseSchema (utf16 ''uno'') ENGLISH ENGLISH)) =
     [utf16 ''definition'', utf16 ''pronunciation'', utf16 ''exampleSentences'',
      utf16 ''partOfSpeech'', utf16 ''relatedWords''] \<and>
   getTermDetails example_host (utf16 ''uno'') ENGLISH ENGLISH
     (answers (text_ok json_translated) audio_empty)
   = Some (detail_of (utf16 ''the number 1'') (Some (utf16 ''one''))) \<and>
   wd_translation (detail_of (utf16 ''the number 1'') (Some (utf16 ''one''))) = Some (utf16 ''one'')"
  by code_simp

section \<open>Properties of the application\<close>

subsection \<open>Lookups that overlap\<close>

lemma remove_nth_append_last: "remove_nth (length xs) (xs @ [a, b]) = xs @ [b]"
  by (simp add: remove_nth_def)

lemma remove_nth_append_single: "remove_nth (length xs) (xs @ [a]) = xs"
  by (simp add: remove_nth_def)

lemma remove_nth_append_snd: "remove_nth (Suc (length xs)) (xs @ [a, b]) = xs @ [a]"
  by (simp add: remove_nth_def)

lemma MESSAGE_NULL_truthy: "truthy (Some MESSAGE_NULL)"
  by (simp add: truthy_def MESSAGE_NULL_def utf16_def)

lemma stale_clicked:
  "selectedTerm (handleTermClick B sB tB (handleTermClick A sA tA st)) = Some B \<and>
   wordDetails (handleTermClick B sB tB (handleTermClick A sA tA st)) = None \<and>
   error (handleTermClick B sB tB (handleTermClick A sA tA st)) = None \<and>
   isLoading (handleTermClick B sB tB (handleTermClick A sA tA st)) \<and>
   isModalOpen (handleTermClick B sB tB (handleTermClick A sA tA st)) \<and>
   pendingLookups (handleTermClick B sB tB (handleTermClick A sA tA st)) =
     pendingLookups st @ [(A, sA, tA), (B, sB, tB)]"
  by (simp add: handleTermClick_def)

lemma stale_first:
  "lookupSettles H (length (pendingLookups st)) RA
     (handleTermClick B sB tB (handleTermClick A sA tA st)) =
   handleTermClick_resume (Fulfilled (getTermDetails H A sA tA RA))
     (handleTermClick B sB tB (handleTermClick A sA tA st)
        \<lparr>pendingLookups := pendingLookups st @ [(B, sB, tB)]\<rparr>)"
  by (simp add: lookupSettles_def handleTermClick_def remove_nth_append_last nth_append)

lemma stale_second:
  "lookupSettles H (Suc (length (pendingLookups st))) RB
     (handleTermClick B sB tB (handleTermClick A sA tA st)) =
   handleTermClick_resume (Fulfilled (getTermDetails H B sB tB RB))
     (handleTermClick B sB tB (handleTermClick A sA tA st)
        \<lparr>pendingLookups := pendingLookups st @ [(A, sA, tA)]\<rparr>)"
  by (simp add: lookupSettles_def handleTermClick_def remove_nth_append_snd nth_append)

lemma stale_last:
  assumes "pendingLookups s = xs @ [(t, l, g)]"
  shows "lookupSettles H (length xs) R s =
           handleTermClick_resume (Fulfilled (getTermDetails H t l g R))
             (s \<lparr>pendingLookups := xs\<rparr>)"
  using assms by (simp add: lookupSettles_def remove_nth_append_single nth_append)

text \<open>
  C1, as the code has it. A lookup for B started while a lookup for A is pending resets
  the visible state for B, whether or not the modal was closed in between: B is the
  selected term, the modal is open and loading, and it shows neither details nor a
  message. No settlement is checked against the selected
  term. When the call for A settles first, loading is switched off, B still being the
  selected term and the call for B still pending: if the call succeeded the modal shows
  the details of A, and the save button stores them under B with the effective source
  language, unless B is empty or that pair is saved already; if it failed the modal
  shows the failure message. A success does not clear the message of a failure, and the
  details are shown only while there is no message: so when both calls have settled, in
  either order, the modal shows the failure message and no details if one of the two
  failed, and otherwise the details of the call that settled last.
\<close>

theorem stale_result_is_applied:
  "(let n = length (pendingLookups st);
        stAB = handleTermClick B sB tB (handleTermClick A sA tA st);
        a = getTermDetails H A sA tA RA;
        b = getTermDetails H B sB tB RB;
        afterA = lookupSettles H n RA stAB;
        afterB = lookupSettles H (Suc n) RB stAB;
        afterAB = lookupSettles H n RB afterA;
        afterBA = lookupSettles H n RA afterB;
        l = effectiveSourceLanguage st
    in handleTermClick B sB tB (step H CloseModal (handleTermClick A sA tA st)) = stAB \<and>
       selectedTerm stAB = Some B \<and> isModalOpen stAB \<and> isLoading stAB \<and>
       detailsShown stAB = None \<and> errorShown stAB = None \<and>
       selectedTerm afterA = Some B \<and> isModalOpen afterA \<and> isLoading afterA = False \<and>
       pendingLookups afterA = pendingLookups st @ [(B, sB, tB)] \<and>
       detailsShown afterA = a \<and>
       errorShown afterA = (if a = None then Some MESSAGE_NULL else None) \<and>
       savedWords (step H (SaveClick now) afterA) =
         (case a of
            None \<Rightarrow> savedWords st
          | Some d \<Rightarrow>
              if B = [] \<or> (B, l) \<in> set (map entry_key (savedWords st)) then savedWords st
              else savedWords st @
                [\<lparr>sw_term = B, sw_sourceLanguage = l, sw_targetLanguage = targetLanguage st,
                  sw_details = d, sw_savedAt = now\<rparr>]) \<and>
       selectedTerm afterAB = Some B \<and> isModalOpen afterAB \<and> isLoading afterAB = False \<and>
       pendingLookups afterAB = pendingLookups st \<and>
       detailsShown afterAB = (if a = None \<or> b = None then None else b) \<and>
       errorShown afterAB = (if a = None \<or> b = None then Some MESSAGE_NULL else None) \<and>
       selectedTerm afterBA = Some B \<and> isModalOpen afterBA \<and> isLoading afterBA = False \<and>
       pendingLookups afterBA = pendingLookups st \<and>
       detailsShown afterBA = (if a = None \<or> b = None then None else a) \<and>
       errorShown afterBA = (if a = None \<or> b = None then Some MESSAGE_NULL else None))"
proof -
  define n where "n = length (pendingLookups st)"
  define stAB where "stAB = handleTermClick B sB tB (handleTermClick A sA tA st)"
  define a where "a = getTermDetails H A sA tA RA"
  define b where "b = getTermDetails H B sB tB RB"
  define afterA where "afterA = lookupSettles H n RA stAB"
  define afterB where "afterB = lookupSettles H (Suc n) RB stAB"
  define afterAB where "afterAB = lookupSettles H n RB afterA"
  define afterBA where "afterBA = lookupSettles H n RA afterB"
  define l where "l = effectiveSourceLanguage st"
  note c = stale_clicked [of B sB tB A sA tA st, folded stAB_def]
  have c': "savedWords stAB = savedWords st \<and> targetLanguage stAB = targetLanguage st \<and>
            detectedSourceLanguage stAB = detectedSourceLanguage st"
    by (simp add: stAB_def handleTermClick_def)
  have p0: "handleTermClick B sB tB (step H CloseModal (handleTermClick A sA tA st)) = stAB"
    by (simp add: stAB_def handleTermClick_def handleCloseModal_def)
  have p1: "selectedTerm stAB = Some B \<and> isModalOpen stAB \<and> isLoading stAB \<and>
            detailsShown stAB = None \<and> errorShown stAB = None"
    using c by (simp add: detailsShown_def errorShown_def truthy_def)
  have fA: "afterA = handleTermClick_resume (Fulfilled a)
              (stAB \<lparr>pendingLookups := pendingLookups st @ [(B, sB, tB)]\<rparr>)"
    unfolding afterA_def n_def stAB_def a_def by (rule stale_first)
  have fB: "afterB = handleTermClick_resume (Fulfilled b)
              (stAB \<lparr>pendingLookups := pendingLookups st @ [(A, sA, tA)]\<rparr>)"
    unfolding afterB_def n_def stAB_def b_def by (rule stale_second)
  have sA: "selectedTerm afterA = Some B \<and> isModalOpen afterA \<and> isLoading afterA = False \<and>
            pendingLookups afterA = pendingLookups st @ [(B, sB, tB)] \<and>
            wordDetails afterA = a \<and>
            error afterA = (if a = None then Some MESSAGE_NULL else None) \<and>
            savedWords afterA = savedWords st \<and> targetLanguage afterA = targetLanguage st \<and>
            detectedSourceLanguage afterA = detectedSourceLanguage st"
    using c c' by (cases a) (simp_all add: fA handleTermClick_resume_def)
  have sB: "selectedTerm afterB = Some B \<and> isModalOpen afterB \<and> isLoading afterB = False \<and>
            pendingLookups afterB = pendingLookups st @ [(A, sA, tA)] \<and>
            wordDetails afterB = b \<and>
            error afterB = (if b = None then Some MESSAGE_NULL else None)"
    using c by (cases b) (simp_all add: fB handleTermClick_resume_def)
  have p2: "detailsShown afterA = a \<and>
            errorShown afterA = (if a = None then Some MESSAGE_NULL else None)"
    using sA MESSAGE_NULL_truthy by (simp add: detailsShown_def errorShown_def truthy_def)
  have eff: "effectiveSourceLanguage afterA = l"
    using sA by (simp add: effectiveSourceLanguage_def l_def)
  have saved: "isAlreadySaved afterA B = ((B, l) \<in> set (map entry_key (savedWords st)))"
    using sA eff by (auto simp: isAlreadySaved_def list_ex_iff entry_key_def)
  have p3: "savedWords (step H (SaveClick now) afterA) =
         (case a of
            None \<Rightarrow> savedWords st
          | Some d \<Rightarrow>
              if B = [] \<or> (B, l) \<in> set (map entry_key (savedWords st)) then savedWords st
              else savedWords st @
                [\<lparr>sw_term = B, sw_sourceLanguage = l, sw_targetLanguage = targetLanguage st,
                  sw_details = d, sw_savedAt = now\<rparr>])"
  proof (cases a)
    case None
    with sA show ?thesis
      by (simp add: saveButtonEnabled_def handleSaveWord_def)
  next
    case (Some d)
    with sA eff saved show ?thesis
      by (simp add: saveButtonEnabled_def isCurrentTermSaved_def handleSaveWord_def)
  qed
  have fAB: "afterAB = handleTermClick_resume (Fulfilled b)
               (afterA \<lparr>pendingLookups := pendingLookups st\<rparr>)"
    unfolding afterAB_def n_def b_def using sA by (simp add: stale_last)
  have fBA: "afterBA = handleTermClick_resume (Fulfilled a)
               (afterB \<lparr>pendingLookups := pendingLookups st\<rparr>)"
    unfolding afterBA_def n_def a_def using sB by (simp add: stale_last)
  have sAB: "selectedTerm afterAB = Some B \<and> isModalOpen afterAB \<and> isLoading afterAB = False \<and>
             pendingLookups afterAB = pendingLookups st \<and>
             wordDetails afterAB = (case b of Some d \<Rightarrow> Some d | None \<Rightarrow> a) \<and>
             error afterAB = (if a = None \<or> b = None then Some MESSAGE_NULL else None)"
    using sA by (cases b) (simp_all add: fAB handleTermClick_resume_def)
  have sBA: "selectedTerm afterBA = Some B \<and> isModalOpen afterBA \<and> isLoading afterBA = False \<and>
             pendingLookups afterBA = pendingLookups st \<and>
             wordDetails afterBA = (case a of Some d \<Rightarrow> Some d | None \<Rightarrow> b) \<and>
             error afterBA = (if a = None \<or> b = None then Some MESSAGE_NULL else None)"
    using sB by (cases a) (simp_all add: fBA handleTermClick_resume_def)
  have p4: "detailsShown afterAB = (if a = None \<or> b = None then None else b) \<and>
            errorShown afterAB = (if a = None \<or> b = None then Some MESSAGE_NULL else None)"
    using sAB MESSAGE_NULL_truthy
    by (auto simp: detailsShown_def errorShown_def truthy_def)
  have p5: "detailsShown afterBA = (if a = None \<or> b = None then None else a) \<and>
            errorShown afterBA = (if a = None \<or> b = None then Some MESSAGE_NULL else None)"
    using sBA MESSAGE_NULL_truthy
    by (auto simp: detailsShown_def errorShown_def truthy_def)
  show ?thesis
    unfolding Let_def n_def [symmetric] stAB_def [symmetric] a_def [symmetric]
      b_def [symmetric] afterA_def [symmetric] afterB_def [symmetric]
      afterAB_def [symmetric] afterBA_def [symmetric] l_def [symmetric]
    apply (rule conjI)
     apply (rule p0)
    using p1 sA p2 p3 sAB p4 sBA p5 apply blast
    done
qed

text \<open>
  C1, as stated, fails: the word \<open>uno\<close> is clicked, the modal closed, the word
  \<open>dos\<close> clicked, and the call for \<open>uno\<close> settles while the call for \<open>dos\<close> is
  still pending. The modal then shows the details of \<open>uno\<close> under the term \<open>dos\<close>,
  and the save button stores them under \<open>dos\<close>; had the call for \<open>uno\<close> failed, its
  failure message would show.
\<close>

theorem stale_result_counterexample:
  "selectedTerm (run example_host
     [InputChange (utf16 ''uno dos''), WordClick 0, CloseModal, WordClick 2,
      LookupSettles 0 (answers (text_ok json_one) audio_empty)]
     initial_state) = Some (utf16 ''dos'') \<and>
   detailsShown (run example_host
     [InputChange (utf16 ''uno dos''), WordClick 0, CloseModal, WordClick 2,
      LookupSettles 0 (answers (text_ok json_one) audio_empty)]
     initial_state) = Some (detail_of (utf16 ''the number 1'') None) \<and>
   pendingLookups (run example_host
     [InputChange (utf16 ''uno dos''), WordClick 0, CloseModal, WordClick 2,
      LookupSettles 0 (answers (text_ok json_one) audio_empty)]
     initial_state) = [(utf16 ''dos'', ENGLISH, ENGLISH)] \<and>
   map (\<lambda>sw. (sw_term sw, sw_details sw)) (savedWords (run example_host
     [InputChange (utf16 ''uno dos''), WordClick 0, CloseModal, WordClick 2,
      LookupSettles 0 (answers (text_ok json_one) audio_empty),
      SaveClick 5]
     initial_state)) = [(utf16 ''dos'', detail_of (utf16 ''the number 1'') None)] \<and>
   errorShown (run example_host
     [InputChange (utf16 ''uno dos''), WordClick 0, CloseModal, WordClick 2,
      LookupSettles 0 (answers (text_ok (utf16 ''not json'')) audio_empty)]
     initial_state) = Some MESSAGE_NULL"
  by code_simp

subsection \<open>Language detection and the empty input\<close>

lemma timer_fields_unchanged:
  "debounceTimer (autoDetect_resume i lang st) = debounceTimer st \<and>
   inputText (autoDetect_resume i lang st) = inputText st"
  "debounceTimer (handleTermClick t s g st) = debounceTimer st \<and>
   inputText (handleTermClick t s g st) = inputText st"
  "debounceTimer (handleMouseUp sel st) = debounceTimer st \<and>
   inputText (handleMouseUp sel st) = inputText st"
  "debounceTimer (lookupSettles H i R st) = debounceTimer st \<and>
   inputText (lookupSettles H i R st) = inputText st"
  "debounceTimer (handleCloseModal st) = debounceTimer st \<and>
   inputText (handleCloseModal st) = inputText st"
  "debounceTimer (handleSaveWord now st) = debounceTimer st \<and>
   inputText (handleSaveWord now st) = inputText st"
  "debounceTimer (handleRemoveWord t l st) = debounceTimer st \<and>
   inputText (handleRemoveWord t l st) = inputText st"
  by (simp_all add: autoDetect_resume_def handleTermClick_def handleMouseUp_def lookupSettles_def
      handleTermClick_resume_def handleCloseModal_def handleSaveWord_def handleRemoveWord_def
      split: option.splits settled.splits prod.splits)

lemma step_timer_current: "timer_current st \<Longrightarrow> timer_current (step H e st)"
proof (cases e)
  case (InputChange v)
  then show "timer_current st \<Longrightarrow> ?thesis"
    by (simp add: timer_current_def onInputChange_def detectionEffect_def tokenizeEffect_def)
next
  case TimerFires
  then show "timer_current st \<Longrightarrow> ?thesis"
    by (simp add: timer_current_def autoDetect_start_def split: option.splits)
next
  case ClearText
  then show "timer_current st \<Longrightarrow> ?thesis"
    by (simp add: timer_current_def clearInput_def Let_def detectionEffect_def tokenizeEffect_def
        split: option.splits)
qed (simp_all add: timer_current_def timer_fields_unchanged Let_def split: option.splits)

lemma run_timer_current: "timer_current st \<Longrightarrow> timer_current (run H es st)"
  by (induction es arbitrary: st) (simp_all add: step_timer_current)

text \<open>
  C7, as the code has it. When a non-empty input becomes empty, by typing or by the
  clear button, the parts and the detected language are reset, and the timer of the
  detection effect is replaced by one for the empty text, which starts no detection
  call when it fires and resets the detected language once more; the clear button also
  resets the detecting flag. Calls already outstanding stay outstanding, and the answer
  of one is written to the detected language when it arrives, the input being empty.
  In every reachable state a pending timer is for the current input text.
\<close>

theorem empty_input_resets:
  assumes "inputText st \<noteq> []"
  shows "(let typed = onInputChange H [] st; cleared = clearInput H st
          in inputText typed = [] \<and> processedTextParts typed = [] \<and>
             detectedSourceLanguage typed = None \<and> debounceTimer typed = Some [] \<and>
             pendingDetections typed = pendingDetections st \<and>
             inputText cleared = [] \<and> processedTextParts cleared = [] \<and>
             detectedSourceLanguage cleared = None \<and> isDetectingLanguage cleared = False \<and>
             debounceTimer cleared = Some [] \<and>
             pendingDetections cleared = pendingDetections st \<and>
             pendingDetections (autoDetect_start H typed) = pendingDetections st \<and>
             pendingDetections (autoDetect_start H cleared) = pendingDetections st \<and>
             detectedSourceLanguage (autoDetect_start H typed) = None \<and>
             detectedSourceLanguage (autoDetect_start H cleared) = None \<and>
             (i < length (pendingDetections st) \<longrightarrow>
                inputText (autoDetect_resume i lang typed) = [] \<and>
                detectedSourceLanguage (autoDetect_resume i lang typed) = lang \<and>
                inputText (autoDetect_resume i lang cleared) = [] \<and>
                detectedSourceLanguage (autoDetect_resume i lang cleared) = lang)) \<and>
         timer_current (run H es initial_state)"
proof -
  have "timer_current initial_state"
    by (simp add: timer_current_def initial_state_def)
  then have "timer_current (run H es initial_state)"
    by (rule run_timer_current)
  with assms show ?thesis
    by (simp add: Let_def onInputChange_def clearInput_def detectionEffect_def tokenizeEffect_def
        autoDetect_start_def autoDetect_resume_def trim_def)
qed

theorem empty_input_resets_witness:
  "debounceTimer (onInputChange example_host []
     (run example_host [InputChange (utf16 ''hola''), TimerFires] initial_state)) = Some [] \<and>
   detectedSourceLanguage (onInputChange example_host []
     (run example_host [InputChange (utf16 ''hola''), TimerFires] initial_state)) = None \<and>
   detectedSourceLanguage (autoDetect_resume 0 (Some SPANISH) (clearInput example_host
     (run example_host [InputChange (utf16 ''hola''), TimerFires] initial_state))) = Some SPANISH"
proof -
  define st where "st = run example_host [InputChange (utf16 ''hola''), TimerFires] initial_state"
  have h1: "inputText st \<noteq> []"
  proof -
    have "inputText st = utf16 ''hola''" unfolding st_def by code_simp
    then show ?thesis by (simp add: utf16_def)
  qed
  have h2: "0 < length (pendingDetections st)" unfolding st_def by code_simp
  from empty_input_resets [OF h1, where H = example_host and i = 0 and lang = "Some SPANISH"] h2
  have "debounceTimer (onInputChange example_host [] st) = Some [] \<and>
        detectedSourceLanguage (onInputChange example_host [] st) = None \<and>
        detectedSourceLanguage (autoDetect_resume 0 (Some SPANISH) (clearInput example_host st))
          = Some SPANISH"
    by (simp add: Let_def)
  then show ?thesis unfolding st_def .
qed

text \<open>
  C7, as stated, fails: a detection call for \<open>hola\<close> is outstanding when the input
  becomes empty; its answer arrives after the timer for the empty text has fired, and
  the detected language is Spanish on an empty input, with nothing left pending. The same
  happens after the clear button. After typing the input empty, the detecting
  flag is still set.
\<close>

theorem late_detection_counterexample:
  "inputText (run example_host
     [InputChange (utf16 ''hola''), TimerFires, InputChange [], TimerFires,
      DetectionSettles 0 (Some SPANISH)] initial_state) = [] \<and>
   detectedSourceLanguage (run example_host
     [InputChange (utf16 ''hola''), TimerFires, InputChange [], TimerFires,
      DetectionSettles 0 (Some SPANISH)] initial_state) = Some SPANISH \<and>
   inputText (run example_host
     [InputChange (utf16 ''hola''), TimerFires, ClearText,
      DetectionSettles 0 (Some SPANISH)] initial_state) = [] \<and>
   detectedSourceLanguage (run example_host
     [InputChange (utf16 ''hola''), TimerFires, ClearText,
      DetectionSettles 0 (Some SPANISH)] initial_state) = Some SPANISH \<and>
   inputText (run example_host
     [InputChange (utf16 ''hola''), TimerFires, InputChange []] initial_state) = [] \<and>
   isDetectingLanguage (run example_host
     [InputChange (utf16 ''hola''), TimerFires, InputChange []] initial_state) = True"
  by code_simp

subsection \<open>Saved words\<close>

lemma isAlreadySaved_iff:
  "isAlreadySaved st t \<longleftrightarrow> (t, effectiveSourceLanguage st) \<in> set (map entry_key (savedWords st))"
  by (auto simp: isAlreadySaved_def list_ex_iff entry_key_def)

lemma handleSaveWord_unique: "unique_keys st \<Longrightarrow> unique_keys (handleSaveWord now st)"
  by (auto simp: handleSaveWord_def unique_keys_def isAlreadySaved_iff entry_key_def
      split: option.splits)

lemma handleRemoveWord_unique: "unique_keys st \<Longrightarrow> unique_keys (handleRemoveWord t l st)"
  by (simp add: handleRemoveWord_def unique_keys_def distinct_map_filter)

lemma savedWords_unchanged [simp]:
  "savedWords (onInputChange H v st) = savedWords st"
  "savedWords (autoDetect_start H st) = savedWords st"
  "savedWords (autoDetect_resume i lang st) = savedWords st"
  "savedWords (handleTermClick t s g st) = savedWords st"
  "savedWords (handleMouseUp sel st) = savedWords st"
  "savedWords (lookupSettles H i R st) = savedWords st"
  "savedWords (handleCloseModal st) = savedWords st"
  "savedWords (clearInput H st) = savedWords st"
  by (simp_all add: onInputChange_def detectionEffect_def tokenizeEffect_def autoDetect_start_def
      autoDetect_resume_def handleTermClick_def handleMouseUp_def lookupSettles_def
      handleTermClick_resume_def handleCloseModal_def clearInput_def Let_def
      split: option.splits settled.splits prod.splits)

lemma step_unique: "unique_keys st \<Longrightarrow> unique_keys (step H e st)"
proof (cases e)
  case (SaveClick now)
  then show "unique_keys st \<Longrightarrow> ?thesis" by (simp add: handleSaveWord_unique)
next
  case (RemoveClick i)
  then show "unique_keys st \<Longrightarrow> ?thesis" by (simp add: handleRemoveWord_unique Let_def)
qed (simp_all add: unique_keys_def Let_def split: option.splits)

lemma run_unique: "unique_keys st \<Longrightarrow> unique_keys (run H es st)"
  by (induction es arbitrary: st) (simp_all add: step_unique)

lemma initial_unique: "unique_keys initial_state"
  by (simp add: unique_keys_def initial_state_def)

lemma filter_key_distinct:
  assumes "distinct (map entry_key xs)" and "x \<in> set xs"
  shows "filter (\<lambda>sw. entry_key sw = entry_key x) xs = [x]"
  using assms
proof (induction xs)
  case Nil
  then show ?case by simp
next
  case (Cons a xs)
  show ?case
  proof (cases "a = x")
    case True
    from Cons.prems(1) True have "entry_key x \<notin> entry_key ` set xs"
      by simp
    then have "\<forall>y\<in>set xs. entry_key y \<noteq> entry_key x"
      by (metis image_eqI)
    then have "filter (\<lambda>sw. entry_key sw = entry_key x) xs = []"
      by (simp add: filter_empty_conv)
    with True show ?thesis by simp
  next
    case False
    with Cons.prems have "x \<in> set xs" and "entry_key a \<noteq> entry_key x"
      by auto
    with Cons show ?thesis by simp
  qed
qed

text \<open>
  C9. In a state whose saved words have unique keys, with a selected term and details
  shown, saving twice for the same term and source language (the second time even with
  other details and another target language on display) changes nothing the second
  time: the list is the list after the first save, it has exactly one entry for the
  pair, and when the pair was new that entry has the details and the time of the first
  save. Every reachable state has unique keys.
\<close>

theorem save_twice:
  assumes inv: "unique_keys st"
    and sel: "selectedTerm st = Some t" "t \<noteq> []"
    and det: "wordDetails st = Some d" and idle: "\<not> isLoading st"
  shows "(let st1 = handleSaveWord first_at st;
              st2 = handleSaveWord second_at (st1 \<lparr>wordDetails := Some other, targetLanguage := target\<rparr>)
          in savedWords st2 = savedWords st1 \<and>
             length (entries_for t (effectiveSourceLanguage st) st2) = 1 \<and>
             (\<not> isAlreadySaved st t \<longrightarrow>
                savedWords st2 = savedWords st @
                  [\<lparr>sw_term = t, sw_sourceLanguage = effectiveSourceLanguage st,
                    sw_targetLanguage = targetLanguage st, sw_details = d,
                    sw_savedAt = first_at\<rparr>]) \<and>
             (isAlreadySaved st t \<longrightarrow> savedWords st2 = savedWords st) \<and>
             unique_keys st2) \<and>
         unique_keys (run H es initial_state)"
proof -
  let ?l = "effectiveSourceLanguage st"
  let ?new = "\<lparr>sw_term = t, sw_sourceLanguage = ?l, sw_targetLanguage = targetLanguage st,
               sw_details = d, sw_savedAt = first_at\<rparr>"
  define st1 where "st1 = handleSaveWord first_at st"
  define st2 where "st2 = handleSaveWord second_at (st1 \<lparr>wordDetails := Some other, targetLanguage := target\<rparr>)"
  have s1: "savedWords st1 = (if isAlreadySaved st t then savedWords st else savedWords st @ [?new])"
    using sel det idle by (simp add: st1_def handleSaveWord_def)
  have e1: "effectiveSourceLanguage st1 = ?l" "selectedTerm st1 = Some t" "isLoading st1 = isLoading st"
    using sel det idle by (simp_all add: st1_def handleSaveWord_def effectiveSourceLanguage_def)
  have saved1: "isAlreadySaved (st1 \<lparr>wordDetails := Some other, targetLanguage := target\<rparr>) t"
    using s1 e1(1) by (auto simp: isAlreadySaved_def effectiveSourceLanguage_def list_ex_iff)
  have s2: "savedWords st2 = savedWords st1"
    using saved1 e1 by (simp add: st2_def handleSaveWord_def)
  have u1: "unique_keys st1"
    unfolding st1_def by (rule handleSaveWord_unique [OF inv])
  have u2: "unique_keys st2"
    using u1 s2 by (simp add: unique_keys_def)
  have "\<exists>x\<in>set (savedWords st2). entry_key x = (t, ?l)"
  proof (cases "isAlreadySaved st t")
    case True
    then have "(t, ?l) \<in> entry_key ` set (savedWords st)"
      by (simp add: isAlreadySaved_iff)
    with True s1 s2 show ?thesis by force
  next
    case False
    with s1 s2 have "?new \<in> set (savedWords st2)" by simp
    moreover have "entry_key ?new = (t, ?l)" by (simp add: entry_key_def)
    ultimately show ?thesis by blast
  qed
  then obtain x where x: "x \<in> set (savedWords st2)" "entry_key x = (t, ?l)"
    by blast
  have "entries_for t ?l st2 = [x]"
    using filter_key_distinct [of "savedWords st2" x] u2 x
    by (simp add: entries_for_def unique_keys_def)
  then have one: "length (entries_for t ?l st2) = 1" by simp
  have "unique_keys (run H es initial_state)"
    by (rule run_unique [OF initial_unique])
  with s1 s2 u2 one show ?thesis
    unfolding Let_def st1_def [symmetric] st2_def [symmetric] by simp
qed

theorem save_twice_witness:
  "savedWords
     (handleSaveWord 9
        (handleSaveWord 5
           (run example_host
              [InputChange (utf16 ''uno''), WordClick 0,
               LookupSettles 0 (answers (text_ok json_one) audio_empty)]
              initial_state)
         \<lparr>wordDetails := Some (detail_of (utf16 ''the number 2'') None), targetLanguage := FRENCH\<rparr>))
   = [\<lparr>sw_term = utf16 ''uno'', sw_sourceLanguage = ENGLISH, sw_targetLanguage = ENGLISH,
       sw_details = detail_of (utf16 ''the number 1'') None, sw_savedAt = 5\<rparr>]"
proof -
  define st where "st = run example_host
              [InputChange (utf16 ''uno''), WordClick 0,
               LookupSettles 0 (answers (text_ok json_one) audio_empty)]
              initial_state"
  have h1: "unique_keys st" unfolding st_def by code_simp
  have h2: "selectedTerm st = Some (utf16 ''uno'')" unfolding st_def by code_simp
  have h3: "utf16 ''uno'' \<noteq> []" by (simp add: utf16_def)
  have h4: "wordDetails st = Some (detail_of (utf16 ''the number 1'') None)" unfolding st_def by code_simp
  have h5: "\<not> isLoading st" unfolding st_def by code_simp
  have h6: "\<not> isAlreadySaved st (utf16 ''uno'')" unfolding st_def by code_simp
  have h7: "savedWords st = []" unfolding st_def by code_simp
  have h8: "effectiveSourceLanguage st = ENGLISH" unfolding st_def by code_simp
  have h9: "targetLanguage st = ENGLISH" unfolding st_def by code_simp
  from save_twice [OF h1 h2 h3 h4 h5, where first_at = 5 and second_at = 9
      and other = "detail_of (utf16 ''the number 2'') None" and target = FRENCH
      and H = example_host and es = "[]"] h6
  have "savedWords
     (handleSaveWord 9
        (handleSaveWord 5 st
         \<lparr>wordDetails := Some (detail_of (utf16 ''the number 2'') None), targetLanguage := FRENCH\<rparr>))
   = savedWords st @
     [\<lparr>sw_term = utf16 ''uno'', sw_sourceLanguage = effectiveSourceLanguage st,
       sw_targetLanguage = targetLanguage st,
       sw_details = detail_of (utf16 ''the number 1'') None, sw_savedAt = 5\<rparr>]"
    unfolding Let_def by blast
  then have "savedWords
     (handleSaveWord 9
        (handleSaveWord 5 st
         \<lparr>wordDetails := Some (detail_of (utf16 ''the number 2'') None), targetLanguage := FRENCH\<rparr>))
   = [\<lparr>sw_term = utf16 ''uno'', sw_sourceLanguage = ENGLISH, sw_targetLanguage = ENGLISH,
       sw_details = detail_of (utf16 ''the number 1'') None, sw_savedAt = 5\<rparr>]"
    by (simp only: h7 h8 h9 append_Nil)
  then show ?thesis unfolding st_def .
qed

text \<open>
  C10. A term is looked up with the effective source language of that moment; its
  details arrive; a detection call settles; the term is saved. The effective language
  is then the language \<open>l\<close> the detection answered, or English when it answered none.
  The check for an existing entry looks for the term under \<open>l\<close>, and the new entry is
  keyed under \<open>l\<close>, whatever language the lookup was made with.
\<close>

theorem save_uses_language_at_save_time:
  assumes "t \<noteq> []"
    and "getTermDetails H t (effectiveSourceLanguage st) (targetLanguage st) R = Some d"
    and "i < length (pendingDetections st)"
  shows "(let clicked = handleTermClick t (effectiveSourceLanguage st) (targetLanguage st) st;
              shown = lookupSettles H (length (pendingLookups st)) R clicked;
              detected = autoDetect_resume i lang shown;
              l = (case lang of None \<Rightarrow> ENGLISH | Some x \<Rightarrow> x)
          in pendingLookups clicked =
               pendingLookups st @ [(t, effectiveSourceLanguage st, targetLanguage st)] \<and>
             wordDetails shown = Some d \<and>
             effectiveSourceLanguage detected = l \<and>
             isAlreadySaved detected t = ((t, l) \<in> set (map entry_key (savedWords st))) \<and>
             savedWords (handleSaveWord now detected) =
               (if (t, l) \<in> set (map entry_key (savedWords st)) then savedWords st
                else savedWords st @
                  [\<lparr>sw_term = t, sw_sourceLanguage = l, sw_targetLanguage = targetLanguage st,
                    sw_details = d, sw_savedAt = now\<rparr>]))"
proof -
  define clicked where "clicked = handleTermClick t (effectiveSourceLanguage st) (targetLanguage st) st"
  define shown where "shown = lookupSettles H (length (pendingLookups st)) R clicked"
  define detected where "detected = autoDetect_resume i lang shown"
  define l where "l = (case lang of None \<Rightarrow> ENGLISH | Some x \<Rightarrow> x)"
  have c: "pendingLookups clicked =
             pendingLookups st @ [(t, effectiveSourceLanguage st, targetLanguage st)]"
    by (simp add: clicked_def handleTermClick_def)
  have s: "wordDetails shown = Some d \<and> selectedTerm shown = Some t \<and> \<not> isLoading shown \<and>
           savedWords shown = savedWords st \<and> targetLanguage shown = targetLanguage st \<and>
           pendingDetections shown = pendingDetections st"
    using assms(2)
    by (simp add: shown_def clicked_def handleTermClick_def lookupSettles_def
        handleTermClick_resume_def remove_nth_append_single nth_append)
  have d: "effectiveSourceLanguage detected = l \<and> wordDetails detected = Some d \<and>
           selectedTerm detected = Some t \<and> \<not> isLoading detected \<and>
           savedWords detected = savedWords st \<and> targetLanguage detected = targetLanguage st"
    using s assms(3)
    by (simp add: detected_def autoDetect_resume_def effectiveSourceLanguage_def l_def)
  have e: "isAlreadySaved detected t = ((t, l) \<in> set (map entry_key (savedWords st)))"
    using d by (simp add: isAlreadySaved_iff)
  have f: "savedWords (handleSaveWord now detected) =
               (if (t, l) \<in> set (map entry_key (savedWords st)) then savedWords st
                else savedWords st @
                  [\<lparr>sw_term = t, sw_sourceLanguage = l, sw_targetLanguage = targetLanguage st,
                    sw_details = d, sw_savedAt = now\<rparr>])"
    using d e assms(1) by (simp add: handleSaveWord_def)
  from c s d e f show ?thesis
    unfolding Let_def clicked_def [symmetric] shown_def [symmetric] detected_def [symmetric]
      l_def [symmetric]
    by simp
qed

theorem save_uses_language_at_save_time_witness:
  "effectiveSourceLanguage (run example_host [InputChange (utf16 ''uno''), TimerFires] initial_state)
     = ENGLISH \<and>
   savedWords
     (handleSaveWord 5
        (autoDetect_resume 0 (Some SPANISH)
           (lookupSettles example_host 0
              (answers (text_ok json_one) audio_empty)
              (handleTermClick (utf16 ''uno'') ENGLISH ENGLISH
                 (run example_host [InputChange (utf16 ''uno''), TimerFires] initial_state)))))
   = [\<lparr>sw_term = utf16 ''uno'', sw_sourceLanguage = SPANISH, sw_targetLanguage = ENGLISH,
       sw_details = detail_of (utf16 ''the number 1'') None, sw_savedAt = 5\<rparr>]"
proof -
  define st where "st = run example_host [InputChange (utf16 ''uno''), TimerFires] initial_state"
  let ?R = "answers (text_ok json_one) audio_empty"
  have e: "effectiveSourceLanguage st = ENGLISH" unfolding st_def by code_simp
  have g: "targetLanguage st = ENGLISH" unfolding st_def by code_simp
  have p: "pendingLookups st = []" unfolding st_def by code_simp
  have s: "savedWords st = []" unfolding st_def by code_simp
  have h1: "utf16 ''uno'' \<noteq> []" by (simp add: utf16_def)
  have h2: "getTermDetails example_host (utf16 ''uno'') (effectiveSourceLanguage st) (targetLanguage st) ?R
            = Some (detail_of (utf16 ''the number 1'') None)"
    unfolding e g by code_simp
  have h3: "0 < length (pendingDetections st)" unfolding st_def by code_simp
  from save_uses_language_at_save_time [OF h1 h2 h3, where now = 5 and lang = "Some SPANISH"]
  have "savedWords
     (handleSaveWord 5
        (autoDetect_resume 0 (Some SPANISH)
           (lookupSettles example_host 0 ?R (handleTermClick (utf16 ''uno'') ENGLISH ENGLISH st))))
   = [\<lparr>sw_term = utf16 ''uno'', sw_sourceLanguage = SPANISH, sw_targetLanguage = ENGLISH,
       sw_details = detail_of (utf16 ''the number 1'') None, sw_savedAt = 5\<rparr>]"
    by (simp add: Let_def e g p s)
  with e show ?thesis unfolding st_def by blast
qed


end
